theory Spec2Isabelle
  imports Complex_Main "HOL-Library.Word"
begin

section \<open>The wake-word demo \<open>getweather_mic.py\<close>\<close>

text \<open>
  The program is one Python file: a class \<open>PorcupineDemo\<close> whose method \<open>run\<close> opens a
  microphone stream, feeds fixed-size frames to the Porcupine keyword engine, reacts to a
  detection by fetching the weather and speaking it, and on the way out releases its
  resources and optionally writes the recorded audio; and a function \<open>main\<close> that
  validates the command line and starts a session.

  Everything \<open>run\<close> does beyond computing is a call into a library (pvporcupine, pyaudio,
  soundfile, requests, the speech client, the player). The model makes each such call an
  \<^emph>\<open>event\<close> of a trace, in the order the source makes the calls, and takes the call's
  outcome (a value or a raised exception) from an explicit environment. An exception is a
  value of type \<open>exn\<close>; \<open>KeyboardInterrupt\<close> is the operator's interrupt and may be the
  outcome of any call.
\<close>

subsection \<open>Exceptions and outcomes of external calls\<close>

datatype exn =
    KeyboardInterrupt
  | StreamError        \<comment> \<open>raised by \<open>audio_stream.read\<close> when the device fails\<close>
  | DeviceError        \<comment> \<open>raised by \<open>pyaudio.PyAudio()\<close> or \<open>pa.open\<close>\<close>
  | InitError          \<comment> \<open>raised by \<open>pvporcupine.create\<close>\<close>
  | DetectorError      \<comment> \<open>raised by \<open>porcupine.process\<close>\<close>
  | ReactionError      \<comment> \<open>raised inside \<open>get_weather\<close>, \<open>extract_spoken_weather\<close>, \<open>text_to_speech\<close>\<close>
  | IOError            \<comment> \<open>raised by \<open>soundfile.write\<close>\<close>
  | StructError        \<comment> \<open>\<open>struct.error\<close>: the buffer is shorter than the format\<close>
  | IndexError
  | AttributeError
  | KeyError
  | ValueError string

datatype 'a outcome = Ok 'a | Raise exn

type_synonym sample = "16 word"

text \<open>How a session (or \<open>main\<close>) ends. \<open>Running\<close>: the script of the environment is used up
  and the \<open>while True\<close> loop is still waiting for its next frame; nothing after the loop has
  run.\<close>

datatype status = Running | Returned | Raised exn

subsection \<open>Events: the calls the program makes, in order\<close>

datatype console =
    Listening_open                 \<comment> \<open>\<open>Listening {\<close>\<close>
  | Listening_item string real     \<comment> \<open>\<open>  %s (%.2f)\<close> of keyword and sensitivity\<close>
  | Listening_close                \<comment> \<open>\<open>}\<close>\<close>
  | Detected string string         \<comment> \<open>\<open>[%s] Detected %s\<close> of timestamp and keyword\<close>
  | Spoken string                  \<comment> \<open>\<open>print(spoken_weather)\<close>\<close>
  | Audio_written                  \<comment> \<open>\<open>Audio content written to file "output.wav"\<close>\<close>
  | Stopping                       \<comment> \<open>\<open>Stopping ...\<close>\<close>
  | Device_line string             \<comment> \<open>one line of \<open>show_audio_devices\<close>\<close>

datatype event =
    Porcupine_create string string "string list" "real list"
  | PyAudio_init
  | Stream_open nat nat "int option"        \<comment> \<open>rate, frames per buffer, input device index\<close>
  | Console console
  | Stream_read nat "sample list outcome"   \<comment> \<open>frames asked for, and what the device gave\<close>
  | Porcupine_process "int list"
  | Get_weather
  | Synthesize_speech string
  | Speech_file_write string "8 word list"  \<comment> \<open>\<open>open("output.wav", "wb")\<close> and \<open>out.write\<close>\<close>
  | Play string
  | Porcupine_delete
  | Stream_close
  | PyAudio_terminate
  | Soundfile_write string "sample list" nat \<comment> \<open>path, samples as PCM_16, sample rate\<close>

subsection \<open>The object and its environment\<close>

text \<open>The fields \<open>__init__\<close> sets. \<open>_recorded_frames\<close> exists only when an output path was
  given: \<open>None\<close> is the missing attribute.\<close>

record demo =
  library_path :: string
  model_path :: string
  keyword_paths :: "string list"
  sensitivities :: "real list"
  input_device_index :: "int option"
  output_path :: "string option"
  recorded_frames :: "int list list option"

definition init ::
  "string \<Rightarrow> string \<Rightarrow> string list \<Rightarrow> real list \<Rightarrow> int option \<Rightarrow> string option \<Rightarrow> demo" where
  "init lib model kps sens dev out =
     \<lparr> library_path = lib, model_path = model, keyword_paths = kps, sensitivities = sens,
       input_device_index = dev, output_path = out,
       recorded_frames = (if out \<noteq> None then Some [] else None) \<rparr>"

text \<open>The two properties of a Porcupine instance the program reads.\<close>

record porcupine =
  sample_rate :: nat
  frame_length :: nat

text \<open>What the outside world does during one pass of the loop body: the outcome of every
  call the body can make, in the order of the source.\<close>

record iter_env =
  read_res :: "sample list outcome"     \<comment> \<open>\<open>audio_stream.read\<close>: the buffer as 16-bit samples\<close>
  process_res :: "int outcome"          \<comment> \<open>\<open>porcupine.process\<close>\<close>
  now :: string                         \<comment> \<open>\<open>str(datetime.now())\<close>\<close>
  weather_res :: "string outcome"       \<comment> \<open>\<open>get_weather()\<close>: the response\<close>
  spoken_res :: "string outcome"        \<comment> \<open>\<open>extract_spoken_weather(weather)\<close>\<close>
  synth_res :: "8 word list outcome"    \<comment> \<open>the speech client and \<open>synthesize_speech\<close>\<close>
  speech_file_res :: "unit outcome"     \<comment> \<open>writing \<open>output.wav\<close>\<close>
  play_res :: "unit outcome"            \<comment> \<open>\<open>AudioSegment.from_wav\<close> and \<open>play\<close>\<close>

record env =
  create_res :: "porcupine outcome"     \<comment> \<open>\<open>pvporcupine.create\<close>\<close>
  pa_res :: "unit outcome"              \<comment> \<open>\<open>pyaudio.PyAudio()\<close>\<close>
  open_res :: "unit outcome"            \<comment> \<open>\<open>pa.open\<close>\<close>
  iters :: "iter_env list"              \<comment> \<open>one entry per pass of the loop\<close>
  write_res :: "unit outcome"           \<comment> \<open>\<open>soundfile.write\<close>\<close>
  devices :: "string list"              \<comment> \<open>the device lines \<open>show_audio_devices\<close> prints\<close>

subsection \<open>Keyword labels (lines 78 to 80)\<close>

text \<open>\<open>os.path.basename(x).replace('.ppn', '').split('_')[0]\<close>, with POSIX paths.\<close>

definition basename :: "string \<Rightarrow> string" where
  "basename p = rev (takeWhile (\<lambda>c. c \<noteq> CHR ''/'') (rev p))"

fun remove_ppn :: "string \<Rightarrow> string" where
  "remove_ppn [] = []"
| "remove_ppn (c # cs) =
     (if take 4 (c # cs) = ''.ppn'' then remove_ppn (drop 3 cs) else c # remove_ppn cs)"

definition keyword_label :: "string \<Rightarrow> string" where
  "keyword_label x = takeWhile (\<lambda>c. c \<noteq> CHR ''_'') (remove_ppn (basename x))"

definition keywords_of :: "string list \<Rightarrow> string list" where
  "keywords_of kps = map keyword_label kps"

subsection \<open>One pass of the loop body (lines 108 to 123)\<close>

text \<open>\<open>struct.unpack_from("h" * frame_length, pcm)\<close>: the first \<open>frame_length\<close> samples of
  the buffer as Python integers; \<open>struct.error\<close> when the buffer is shorter.\<close>

definition unpack_from :: "nat \<Rightarrow> sample list \<Rightarrow> exn + int list" where
  "unpack_from n buf = (if length buf < n then Inl StructError else Inr (map sint (take n buf)))"

text \<open>Lines 111 and 112: \<open>if self._output_path is not None: self._recorded_frames.append(pcm)\<close>.\<close>

definition record_frame ::
  "string option \<Rightarrow> int list list option \<Rightarrow> int list \<Rightarrow> exn + int list list option" where
  "record_frame out rf pcm =
     (case out of
        None \<Rightarrow> Inr rf
      | Some _ \<Rightarrow> (case rf of None \<Rightarrow> Inl AttributeError | Some fs \<Rightarrow> Inr (Some (fs @ [pcm]))))"

text \<open>\<open>text_to_speech\<close> (lines 202 to 233). The result is the trace and the exception that
  ended the call, if any.\<close>

definition text_to_speech :: "string \<Rightarrow> iter_env \<Rightarrow> event list \<times> exn option" where
  "text_to_speech data it =
     (case synth_res it of
        Raise e \<Rightarrow> ([Synthesize_speech data], Some e)
      | Ok audio \<Rightarrow>
          (case speech_file_res it of
             Raise e \<Rightarrow> ([Synthesize_speech data, Speech_file_write ''output.wav'' audio], Some e)
           | Ok _ \<Rightarrow>
               (case play_res it of
                  Raise e \<Rightarrow>
                    ([Synthesize_speech data, Speech_file_write ''output.wav'' audio,
                      Console Audio_written, Play ''output.wav''], Some e)
                | Ok _ \<Rightarrow>
                    ([Synthesize_speech data, Speech_file_write ''output.wav'' audio,
                      Console Audio_written, Play ''output.wav''], None))))"

text \<open>The branch \<open>if result >= 0\<close> (lines 116 to 123): the detection line, then the weather,
  its spoken form, and the speech. Nothing in it is guarded by a \<open>try\<close>.\<close>

definition on_detect :: "string list \<Rightarrow> int \<Rightarrow> iter_env \<Rightarrow> event list \<times> exn option" where
  "on_detect keywords result it =
     (if nat result < length keywords then
        (case weather_res it of
           Raise e \<Rightarrow> ([Console (Detected (now it) (keywords ! nat result)), Get_weather], Some e)
         | Ok weather \<Rightarrow>
             (case spoken_res it of
                Raise e \<Rightarrow>
                  ([Console (Detected (now it) (keywords ! nat result)), Get_weather], Some e)
              | Ok spoken \<Rightarrow>
                  (case text_to_speech spoken it of
                     (ev, r) \<Rightarrow>
                       ([Console (Detected (now it) (keywords ! nat result)), Get_weather,
                         Console (Spoken spoken)] @ ev, r))))
      else ([], Some IndexError))"

text \<open>The loop body. The result is the trace of the pass, the recorded frames after it, and
  the exception that ended it (\<open>None\<close>: the pass reached its end and the loop goes on).\<close>

definition iteration ::
  "porcupine \<Rightarrow> string list \<Rightarrow> string option \<Rightarrow> int list list option \<Rightarrow> iter_env \<Rightarrow>
     event list \<times> int list list option \<times> exn option" where
  "iteration p keywords out rf it =
     (case read_res it of
        Raise e \<Rightarrow> ([Stream_read (frame_length p) (Raise e)], rf, Some e)
      | Ok buf \<Rightarrow>
          (case unpack_from (frame_length p) buf of
             Inl e \<Rightarrow> ([Stream_read (frame_length p) (Ok buf)], rf, Some e)
           | Inr pcm \<Rightarrow>
               (case record_frame out rf pcm of
                  Inl e \<Rightarrow> ([Stream_read (frame_length p) (Ok buf)], rf, Some e)
                | Inr rf' \<Rightarrow>
                    (case process_res it of
                       Raise e \<Rightarrow>
                         ([Stream_read (frame_length p) (Ok buf), Porcupine_process pcm], rf', Some e)
                     | Ok result \<Rightarrow>
                         if result \<ge> 0 then
                           (case on_detect keywords result it of
                              (ev, r) \<Rightarrow>
                                ([Stream_read (frame_length p) (Ok buf), Porcupine_process pcm] @ ev,
                                 rf', r))
                         else
                           ([Stream_read (frame_length p) (Ok buf), Porcupine_process pcm],
                            rf', None)))))"

subsection \<open>The loop \<open>while True\<close> (line 107)\<close>

text \<open>The loop has no exit of its own: it ends only when a call raises. It runs here over
  the script of the environment, one entry per pass; when the script is used up the loop is
  still running and the result carries no exception.\<close>

fun loop ::
  "porcupine \<Rightarrow> string list \<Rightarrow> string option \<Rightarrow> int list list option \<Rightarrow> iter_env list \<Rightarrow>
     event list \<times> int list list option \<times> exn option" where
  "loop p keywords out rf [] = ([], rf, None)"
| "loop p keywords out rf (it # its) =
     (case iteration p keywords out rf it of
        (ev, rf', Some e) \<Rightarrow> (ev, rf', Some e)
      | (ev, rf', None) \<Rightarrow>
          (case loop p keywords out rf' its of (ev2, rf2, r) \<Rightarrow> (ev @ ev2, rf2, r)))"

subsection \<open>The \<open>try\<close> block (lines 85 to 123)\<close>

text \<open>The local variables \<open>porcupine\<close>, \<open>pa\<close> and \<open>audio_stream\<close> start as \<open>None\<close> and are
  assigned as the calls succeed.\<close>

record locals =
  l_porcupine :: "porcupine option"
  l_pa :: bool
  l_audio_stream :: bool

definition listening :: "string list \<Rightarrow> real list \<Rightarrow> event list" where
  "listening keywords sens =
     [Console Listening_open] @
     map (\<lambda>(k, s). Console (Listening_item k s)) (zip keywords sens) @
     [Console Listening_close]"

definition try_block ::
  "demo \<Rightarrow> env \<Rightarrow> event list \<times> locals \<times> int list list option \<times> exn option" where
  "try_block d en =
     (case create_res en of
        Raise e \<Rightarrow>
          ([Porcupine_create (library_path d) (model_path d) (keyword_paths d) (sensitivities d)],
           \<lparr>l_porcupine = None, l_pa = False, l_audio_stream = False\<rparr>, recorded_frames d, Some e)
      | Ok p \<Rightarrow>
          (case pa_res en of
             Raise e \<Rightarrow>
               ([Porcupine_create (library_path d) (model_path d) (keyword_paths d) (sensitivities d),
                 PyAudio_init],
                \<lparr>l_porcupine = Some p, l_pa = False, l_audio_stream = False\<rparr>, recorded_frames d,
                Some e)
           | Ok _ \<Rightarrow>
               (case open_res en of
                  Raise e \<Rightarrow>
                    ([Porcupine_create (library_path d) (model_path d) (keyword_paths d)
                        (sensitivities d),
                      PyAudio_init,
                      Stream_open (sample_rate p) (frame_length p) (input_device_index d)],
                     \<lparr>l_porcupine = Some p, l_pa = True, l_audio_stream = False\<rparr>,
                     recorded_frames d, Some e)
                | Ok _ \<Rightarrow>
                    (case loop p (keywords_of (keyword_paths d)) (output_path d)
                            (recorded_frames d) (iters en) of
                       (ev, rf, r) \<Rightarrow>
                         ([Porcupine_create (library_path d) (model_path d) (keyword_paths d)
                             (sensitivities d),
                           PyAudio_init,
                           Stream_open (sample_rate p) (frame_length p) (input_device_index d)] @
                          listening (keywords_of (keyword_paths d)) (sensitivities d) @ ev,
                          \<lparr>l_porcupine = Some p, l_pa = True, l_audio_stream = True\<rparr>, rf, r)))))"

subsection \<open>The \<open>finally\<close> block (lines 127 to 139)\<close>

text \<open>Lines 137 to 139: \<open>np.concatenate(frames, axis=0).astype(np.int16)\<close> and
  \<open>soundfile.write\<close> with \<open>samplerate=porcupine.sample_rate\<close> and \<open>subtype='PCM_16'\<close>.\<close>

definition finalize ::
  "porcupine option \<Rightarrow> string option \<Rightarrow> int list list option \<Rightarrow> unit outcome \<Rightarrow>
     event list \<times> exn option" where
  "finalize po out rf wr =
     (case out of
        None \<Rightarrow> ([], None)
      | Some path \<Rightarrow>
          (case rf of
             None \<Rightarrow> ([], Some AttributeError)
           | Some fs \<Rightarrow>
               if length fs > 0 then
                 (case po of
                    None \<Rightarrow> ([], Some AttributeError)
                  | Some p \<Rightarrow>
                      ([Soundfile_write path (map word_of_int (concat fs)) (sample_rate p)],
                       (case wr of Raise e \<Rightarrow> Some e | Ok _ \<Rightarrow> None)))
               else ([], None)))"

text \<open>Lines 128 to 135: each resource that was acquired is given back. The three calls
  \<open>porcupine.delete()\<close>, \<open>audio_stream.close()\<close> and \<open>pa.terminate()\<close> are taken to
  return, as \<open>print\<close> is; every other call of the program has its outcome in the
  environment.\<close>

definition release :: "locals \<Rightarrow> event list" where
  "release l =
     (if l_porcupine l \<noteq> None then [Porcupine_delete] else []) @
     (if l_audio_stream l then [Stream_close] else []) @
     (if l_pa l then [PyAudio_terminate] else [])"

definition finally_block ::
  "locals \<Rightarrow> string option \<Rightarrow> int list list option \<Rightarrow> unit outcome \<Rightarrow> event list \<times> exn option" where
  "finally_block l out rf wr =
     (case finalize (l_porcupine l) out rf wr of (ev, r) \<Rightarrow> (release l @ ev, r))"

subsection \<open>\<open>run\<close> (lines 72 to 139)\<close>

text \<open>\<open>except KeyboardInterrupt\<close> prints the stop notice and swallows the interrupt; every
  other exception leaves through \<open>finally\<close>. An exception raised inside \<open>finally\<close> replaces
  the one in flight.\<close>

definition run :: "demo \<Rightarrow> env \<Rightarrow> event list \<times> demo \<times> status" where
  "run d en =
     (case try_block d en of
        (ev, l, rf, None) \<Rightarrow> (ev, d\<lparr>recorded_frames := rf\<rparr>, Running)
      | (ev, l, rf, Some e) \<Rightarrow>
          (case finally_block l (output_path d) rf (write_res en) of
             (evf, r) \<Rightarrow>
               (ev @ (if e = KeyboardInterrupt then [Console Stopping] else []) @ evf,
                d\<lparr>recorded_frames := rf\<rparr>,
                (case r of
                   Some e' \<Rightarrow> Raised e'
                 | None \<Rightarrow> if e = KeyboardInterrupt then Returned else Raised e))))"

subsection \<open>\<open>main\<close> (lines 235 to 297)\<close>

text \<open>The parsed command line.\<close>

record args =
  a_keywords :: "string list option"
  a_keyword_paths :: "string list option"
  a_library_path :: string
  a_model_path :: string
  a_sensitivities :: "real list option"
  a_audio_device_index :: "int option"
  a_output_path :: "string option"
  a_show_audio_devices :: bool

definition show_audio_devices :: "env \<Rightarrow> event list \<times> status" where
  "show_audio_devices en =
     (case pa_res en of
        Raise e \<Rightarrow> ([PyAudio_init], Raised e)
      | Ok _ \<Rightarrow>
          ([PyAudio_init] @ map (\<lambda>s. Console (Device_line s)) (devices en) @ [PyAudio_terminate],
           Returned))"

text \<open>Lines 277 to 283. \<open>pvporcupine.KEYWORD_PATHS\<close> is a dictionary of the library, taken
  as a parameter.\<close>

fun lookup_all :: "(string \<rightharpoonup> string) \<Rightarrow> string list \<Rightarrow> exn + string list" where
  "lookup_all kp [] = Inr []"
| "lookup_all kp (x # xs) =
     (case kp x of
        None \<Rightarrow> Inl KeyError
      | Some v \<Rightarrow> (case lookup_all kp xs of Inl e \<Rightarrow> Inl e | Inr vs \<Rightarrow> Inr (v # vs)))"

definition resolve_keyword_paths :: "(string \<rightharpoonup> string) \<Rightarrow> args \<Rightarrow> exn + string list" where
  "resolve_keyword_paths kp a =
     (case a_keyword_paths a of
        None \<Rightarrow>
          (case a_keywords a of
             None \<Rightarrow> Inl (ValueError ''Either `--keywords` or `--keyword_paths` must be set.'')
           | Some ks \<Rightarrow> lookup_all kp ks)
      | Some kps \<Rightarrow> Inr kps)"

definition main :: "(string \<rightharpoonup> string) \<Rightarrow> args \<Rightarrow> env \<Rightarrow> event list \<times> status" where
  "main kp a en =
     (if a_show_audio_devices a then show_audio_devices en
      else
        (case resolve_keyword_paths kp a of
           Inl e \<Rightarrow> ([], Raised e)
         | Inr kps \<Rightarrow>
             (let sens = (case a_sensitivities a of
                            None \<Rightarrow> replicate (length kps) (1 / 2)
                          | Some s \<Rightarrow> s)
              in if length kps \<noteq> length sens then
                   ([], Raised (ValueError
                      ''Number of keywords does not match the number of sensitivities.''))
                 else
                   (case run (init (a_library_path a) (a_model_path a) kps sens
                               (a_audio_device_index a) (a_output_path a)) en of
                      (ev, d, st) \<Rightarrow> (ev, st)))))"

section \<open>Vocabulary for the properties\<close>

subsection \<open>Reading a trace\<close>

fun is_read :: "event \<Rightarrow> bool" where
  "is_read (Stream_read n r) = True"
| "is_read e = False"

text \<open>The frames the device delivered, in the order of their reads.\<close>

fun frames_read :: "event list \<Rightarrow> sample list list" where
  "frames_read [] = []"
| "frames_read (Stream_read n (Ok b) # es) = b # frames_read es"
| "frames_read (e # es) = frames_read es"

fun is_detected :: "event \<Rightarrow> bool" where
  "is_detected (Console (Detected ts k)) = True"
| "is_detected e = False"

text \<open>Everything the branch \<open>if result >= 0\<close> can do.\<close>

fun is_reaction :: "event \<Rightarrow> bool" where
  "is_reaction (Console (Detected ts k)) = True"
| "is_reaction (Console (Spoken s)) = True"
| "is_reaction (Console Audio_written) = True"
| "is_reaction Get_weather = True"
| "is_reaction (Synthesize_speech s) = True"
| "is_reaction (Speech_file_write f c) = True"
| "is_reaction (Play f) = True"
| "is_reaction e = False"

fun is_recording_write :: "event \<Rightarrow> bool" where
  "is_recording_write (Soundfile_write path s r) = True"
| "is_recording_write e = False"

text \<open>The phase of the session an event belongs to: \<open>0\<close> for everything the \<open>try\<close> block and
  the \<open>except\<close> clause do, then the four steps of the \<open>finally\<close> block.\<close>

fun phase :: "event \<Rightarrow> nat" where
  "phase Porcupine_delete = 1"
| "phase Stream_close = 2"
| "phase PyAudio_terminate = 3"
| "phase (Soundfile_write path s r) = 4"
| "phase e = 0"

text \<open>The events the \<open>try\<close> block can emit.\<close>

fun try_event :: "event \<Rightarrow> bool" where
  "try_event Porcupine_delete = False"
| "try_event Stream_close = False"
| "try_event PyAudio_terminate = False"
| "try_event (Soundfile_write path s r) = False"
| "try_event (Console Stopping) = False"
| "try_event (Console (Device_line s)) = False"
| "try_event e = True"

text \<open>The events a pass of the loop can emit.\<close>

fun pass_event :: "event \<Rightarrow> bool" where
  "pass_event (Stream_read n r) = True"
| "pass_event (Porcupine_process pcm) = True"
| "pass_event (Console (Detected ts k)) = True"
| "pass_event (Console (Spoken s)) = True"
| "pass_event (Console Audio_written) = True"
| "pass_event Get_weather = True"
| "pass_event (Synthesize_speech s) = True"
| "pass_event (Speech_file_write f c) = True"
| "pass_event (Play f) = True"
| "pass_event e = False"

text \<open>The part of a trace that starts at read number \<open>k\<close> (counted from \<open>0\<close>), and the pass
  that read begins: the events from it up to the next read.\<close>

fun from_read :: "nat \<Rightarrow> event list \<Rightarrow> event list" where
  "from_read k [] = []"
| "from_read k (e # es) =
     (if is_read e then (case k of 0 \<Rightarrow> e # es | Suc j \<Rightarrow> from_read j es)
      else from_read k es)"

definition pass_of :: "nat \<Rightarrow> event list \<Rightarrow> event list" where
  "pass_of k tr =
     (case from_read k tr of [] \<Rightarrow> [] | e # es \<Rightarrow> e # takeWhile (\<lambda>x. \<not> is_read x) es)"

subsection \<open>Resources, in the order a trace takes and gives them back\<close>

text \<open>\<open>acquired\<close> lists the resources in the order of the calls that acquire them
  (\<open>pvporcupine.create\<close>, \<open>pyaudio.PyAudio()\<close>, \<open>pa.open\<close>), \<open>released\<close> in the order of the
  calls that give them back (\<open>porcupine.delete()\<close>, \<open>audio_stream.close()\<close>,
  \<open>pa.terminate()\<close>).\<close>

datatype resource = Detector | Audio_system | Stream

fun acquired :: "event list \<Rightarrow> resource list" where
  "acquired [] = []"
| "acquired (Porcupine_create l m k s # es) = Detector # acquired es"
| "acquired (PyAudio_init # es) = Audio_system # acquired es"
| "acquired (Stream_open r n d # es) = Stream # acquired es"
| "acquired (e # es) = acquired es"

fun released :: "event list \<Rightarrow> resource list" where
  "released [] = []"
| "released (Porcupine_delete # es) = Detector # released es"
| "released (PyAudio_terminate # es) = Audio_system # released es"
| "released (Stream_close # es) = Stream # released es"
| "released (e # es) = released es"

fun is_ok :: "'a outcome \<Rightarrow> bool" where
  "is_ok (Ok v) = True"
| "is_ok (Raise e) = False"

subsection \<open>Outputs of a session\<close>

text \<open>What a session sends out of the process for a person to see, hear or open: console
  lines, files, sound.\<close>

fun is_output :: "event \<Rightarrow> bool" where
  "is_output (Console c) = True"
| "is_output (Speech_file_write f c) = True"
| "is_output (Play f) = True"
| "is_output (Soundfile_write path s r) = True"
| "is_output e = False"

fun is_console :: "event \<Rightarrow> bool" where
  "is_console (Console c) = True"
| "is_console e = False"

fun is_speech_output :: "event \<Rightarrow> bool" where
  "is_speech_output (Speech_file_write f c) = True"
| "is_speech_output (Play f) = True"
| "is_speech_output e = False"

definition non_console_outputs :: "event list \<Rightarrow> event list" where
  "non_console_outputs tr = filter (\<lambda>e. is_output e \<and> \<not> is_console e) tr"

subsection \<open>Passes of the loop, seen from the environment\<close>

text \<open>The trace of a pass and the exception that ends it do not depend on whether the
  session records; they are read off a pass without recording.\<close>

definition pass_trace :: "porcupine \<Rightarrow> string list \<Rightarrow> iter_env \<Rightarrow> event list" where
  "pass_trace p kws it = fst (iteration p kws None None it)"

definition pass_exn :: "porcupine \<Rightarrow> string list \<Rightarrow> iter_env \<Rightarrow> exn option" where
  "pass_exn p kws it = snd (snd (iteration p kws None None it))"

text \<open>The device keeps its contract: a buffer it delivers holds exactly \<open>frame_length\<close>
  samples.\<close>

definition full_frame :: "porcupine \<Rightarrow> iter_env \<Rightarrow> bool" where
  "full_frame p it = (case read_res it of Ok b \<Rightarrow> length b = frame_length p | Raise e \<Rightarrow> True)"

text \<open>A pass in which no call raises, so that the loop goes on to the next read.\<close>

definition good_pass :: "porcupine \<Rightarrow> string list \<Rightarrow> iter_env \<Rightarrow> bool" where
  "good_pass p kws it = (full_frame p it \<and> pass_exn p kws it = None)"

text \<open>The detector does not report a keyword in this pass.\<close>

definition no_match :: "iter_env \<Rightarrow> bool" where
  "no_match it = (case process_res it of Ok r \<Rightarrow> r < 0 | Raise e \<Rightarrow> True)"

definition frame_of :: "iter_env \<Rightarrow> sample list" where
  "frame_of it = (case read_res it of Ok b \<Rightarrow> b | Raise e \<Rightarrow> [])"

definition loop_trace :: "porcupine \<Rightarrow> string list \<Rightarrow> iter_env list \<Rightarrow> event list" where
  "loop_trace p kws its = fst (loop p kws None None its)"

definition loop_exn :: "porcupine \<Rightarrow> string list \<Rightarrow> iter_env list \<Rightarrow> exn option" where
  "loop_exn p kws its = snd (snd (loop p kws None None its))"

text \<open>The trace of the \<open>try\<close> block up to the first read, when every call of it returns.\<close>

definition session_body ::
  "string \<Rightarrow> string \<Rightarrow> string list \<Rightarrow> real list \<Rightarrow> int option \<Rightarrow> porcupine \<Rightarrow> event list" where
  "session_body lib model kps sens dev p =
     [Porcupine_create lib model kps sens, PyAudio_init,
      Stream_open (sample_rate p) (frame_length p) dev] @
     listening (keywords_of kps) sens"

text \<open>The trace of a session from its start through the passes \<open>its\<close>, each run to its
  end.\<close>

definition trace_through ::
  "string \<Rightarrow> string \<Rightarrow> string list \<Rightarrow> real list \<Rightarrow> int option \<Rightarrow> porcupine \<Rightarrow>
     iter_env list \<Rightarrow> event list" where
  "trace_through lib model kps sens dev p its =
     session_body lib model kps sens dev p @ concat (map (pass_trace p (keywords_of kps)) its)"

definition stop_notice :: "exn \<Rightarrow> event list" where
  "stop_notice e = (if e = KeyboardInterrupt then [Console Stopping] else [])"

definition exit_status :: "exn \<Rightarrow> status" where
  "exit_status e = (if e = KeyboardInterrupt then Returned else Raised e)"

subsection \<open>Example sessions\<close>

definition porc0 :: porcupine where
  "porc0 = \<lparr>sample_rate = 16000, frame_length = 2\<rparr>"

definition quiet_pass :: iter_env where
  "quiet_pass =
     \<lparr>read_res = Ok [1, - 1], process_res = Ok (- 1), now = ''12:00'', weather_res = Ok ''w'',
      spoken_res = Ok ''Sunny'', synth_res = Ok [82], speech_file_res = Ok (),
      play_res = Ok ()\<rparr>"

definition match_pass :: iter_env where
  "match_pass = quiet_pass\<lparr>read_res := Ok [2, 3], process_res := Ok 0\<rparr>"

definition ok_env :: "iter_env list \<Rightarrow> env" where
  "ok_env its =
     \<lparr>create_res = Ok porc0, pa_res = Ok (), open_res = Ok (), iters = its, write_res = Ok (),
      devices = []\<rparr>"

definition demo0 :: "string option \<Rightarrow> demo" where
  "demo0 out = init ''lib'' ''model'' [''/m/porcupine_linux.ppn''] [1 / 2] None out"

definition args0 :: args where
  "args0 =
     \<lparr>a_keywords = None,
      a_keyword_paths = Some [''/m/porcupine_linux.ppn'', ''/m/bumblebee_linux.ppn''],
      a_library_path = ''lib'', a_model_path = ''model'', a_sensitivities = Some [1 / 2],
      a_audio_device_index = None, a_output_path = None, a_show_audio_devices = False\<rparr>"

definition interrupt_pass :: iter_env where
  "interrupt_pass = quiet_pass\<lparr>read_res := Raise KeyboardInterrupt\<rparr>"

definition stream_error_pass :: iter_env where
  "stream_error_pass = quiet_pass\<lparr>read_res := Raise StreamError\<rparr>"

definition failing_reaction_pass :: iter_env where
  "failing_reaction_pass = match_pass\<lparr>weather_res := Raise ReactionError\<rparr>"

section \<open>Lemmas about the model\<close>

subsection \<open>Frames in a trace\<close>

lemma frames_read_append: "frames_read (xs @ ys) = frames_read xs @ frames_read ys"
  by (induction xs rule: frames_read.induct) simp_all

lemma frames_read_text_to_speech: "text_to_speech s it = (ev, x) \<Longrightarrow> frames_read ev = []"
  by (auto simp add: text_to_speech_def split: outcome.splits)

lemma frames_read_on_detect: "on_detect kws r it = (ev, x) \<Longrightarrow> frames_read ev = []"
  by (auto simp add: on_detect_def frames_read_text_to_speech
      split: outcome.splits prod.splits if_splits)

lemma frames_read_items:
  "frames_read (map (\<lambda>(k, s). Console (Listening_item k s)) zs) = []"
  by (induction zs) auto

lemma frames_read_listening: "frames_read (listening kws sens) = []"
  by (simp add: listening_def frames_read_append frames_read_items)

lemma frames_read_session_body: "frames_read (session_body lib model kps sens dev p) = []"
  by (simp add: session_body_def frames_read_append frames_read_listening)

lemma concat_roundtrip:
  "map word_of_int (concat (map (map sint) bs)) = concat (bs :: sample list list)"
  by (induction bs) (simp_all add: map_idI)

subsection \<open>One pass, with and without recording\<close>

lemma iteration_norec:
  "iteration p kws None None it = (pass_trace p kws it, None, pass_exn p kws it)"
  by (simp add: pass_trace_def pass_exn_def iteration_def record_frame_def
      split: outcome.splits sum.splits prod.splits)

lemma iteration_rec:
  assumes "full_frame p it"
  shows "iteration p kws (Some path) (Some fs) it =
           (pass_trace p kws it, Some (fs @ map (map sint) (frames_read (pass_trace p kws it))),
            pass_exn p kws it)"
  using assms
  by (auto simp add: frames_read_on_detect pass_trace_def pass_exn_def iteration_def
      record_frame_def full_frame_def unpack_from_def
      split: outcome.splits sum.splits prod.splits)

lemma frames_read_good_pass:
  "good_pass p kws it \<Longrightarrow> frames_read (pass_trace p kws it) = [frame_of it]"
  by (auto simp add: good_pass_def pass_exn_def pass_trace_def iteration_def frame_of_def
      frames_read_on_detect record_frame_def
      split: outcome.splits sum.splits prod.splits if_splits)

lemma frames_read_good_passes:
  "list_all (good_pass p kws) pre \<Longrightarrow>
   frames_read (concat (map (pass_trace p kws) pre)) = map frame_of pre"
  by (induction pre) (simp_all add: frames_read_append frames_read_good_pass)

subsection \<open>The loop\<close>

lemma loop_trace_Nil: "loop_trace p kws [] = []"
  by (simp add: loop_trace_def)

lemma loop_exn_Nil: "loop_exn p kws [] = None"
  by (simp add: loop_exn_def)

lemma loop_trace_Cons:
  "loop_trace p kws (it # its) =
     pass_trace p kws it @ (if pass_exn p kws it = None then loop_trace p kws its else [])"
  by (simp add: loop_trace_def iteration_norec split: option.splits prod.splits)

lemma loop_exn_Cons:
  "loop_exn p kws (it # its) =
     (case pass_exn p kws it of Some e \<Rightarrow> Some e | None \<Rightarrow> loop_exn p kws its)"
  by (simp add: loop_exn_def iteration_norec split: option.splits prod.splits)

lemma loop_norec: "loop p kws None None its = (loop_trace p kws its, None, loop_exn p kws its)"
proof (induction its)
  case Nil
  show ?case by (simp add: loop_trace_Nil loop_exn_Nil)
next
  case (Cons it its)
  then show ?case
    by (simp add: loop_trace_Cons loop_exn_Cons iteration_norec split: option.splits)
qed

lemma loop_rec:
  "list_all (full_frame p) its \<Longrightarrow>
   loop p kws (Some path) (Some fs) its =
     (loop_trace p kws its, Some (fs @ map (map sint) (frames_read (loop_trace p kws its))),
      loop_exn p kws its)"
proof (induction its arbitrary: fs)
  case Nil
  show ?case by (simp add: loop_trace_Nil loop_exn_Nil)
next
  case (Cons it its)
  then show ?case
    by (simp add: loop_trace_Cons loop_exn_Cons iteration_rec frames_read_append
        split: option.splits)
qed

lemma loop_trace_prefix:
  "list_all (good_pass p kws) pre \<Longrightarrow>
   loop_trace p kws (pre @ rest) = concat (map (pass_trace p kws) pre) @ loop_trace p kws rest"
  by (induction pre) (simp_all add: loop_trace_Cons good_pass_def)

lemma loop_exn_prefix:
  "list_all (good_pass p kws) pre \<Longrightarrow> loop_exn p kws (pre @ rest) = loop_exn p kws rest"
  by (induction pre) (simp_all add: loop_exn_Cons good_pass_def)

lemma loop_norec_exit:
  "list_all (good_pass p kws) pre \<Longrightarrow> pass_exn p kws it = Some e \<Longrightarrow>
   loop p kws None None (pre @ it # post) =
     (concat (map (pass_trace p kws) pre) @ pass_trace p kws it, None, Some e)"
  by (simp add: loop_norec loop_trace_prefix loop_exn_prefix loop_trace_Cons loop_exn_Cons)

lemma loop_rec_exit:
  "list_all (good_pass p kws) pre \<Longrightarrow> full_frame p it \<Longrightarrow> pass_exn p kws it = Some e \<Longrightarrow>
   loop p kws (Some path) (Some fs) (pre @ it # post) =
     (concat (map (pass_trace p kws) pre) @ pass_trace p kws it,
      Some (fs @ map (map sint)
                   (frames_read (concat (map (pass_trace p kws) pre) @ pass_trace p kws it))),
      Some e)"
proof (induction pre arbitrary: fs)
  case Nil
  then show ?case by (simp add: iteration_rec)
next
  case (Cons a pre)
  then show ?case
    by (simp add: iteration_rec good_pass_def frames_read_append)
qed

subsection \<open>A session that leaves the loop in a given pass\<close>

lemma run_exit_norec:
  assumes "create_res en = Ok p" "pa_res en = Ok ()" "open_res en = Ok ()"
    and "iters en = pre @ it # post"
    and "list_all (good_pass p (keywords_of kps)) pre"
    and "pass_exn p (keywords_of kps) it = Some e"
  shows "run (init lib model kps sens dev None) en =
           (session_body lib model kps sens dev p @
            concat (map (pass_trace p (keywords_of kps)) pre) @ pass_trace p (keywords_of kps) it @
            stop_notice e @ [Porcupine_delete, Stream_close, PyAudio_terminate],
            init lib model kps sens dev None, exit_status e)"
  using assms
  by (simp add: run_def try_block_def init_def loop_norec_exit session_body_def
      finally_block_def finalize_def release_def stop_notice_def exit_status_def)

lemma run_exit_rec:
  assumes "create_res en = Ok p" "pa_res en = Ok ()" "open_res en = Ok ()"
    and "iters en = pre @ it # post"
    and "list_all (good_pass p (keywords_of kps)) pre"
    and "full_frame p it"
    and "pass_exn p (keywords_of kps) it = Some e"
    and "body = session_body lib model kps sens dev p @
            concat (map (pass_trace p (keywords_of kps)) pre) @ pass_trace p (keywords_of kps) it"
  shows "fst (run (init lib model kps sens dev (Some path)) en) =
           body @ stop_notice e @ [Porcupine_delete, Stream_close, PyAudio_terminate] @
           (if frames_read body = [] then []
            else [Soundfile_write path (concat (frames_read body)) (sample_rate p)])"
    and "snd (snd (run (init lib model kps sens dev (Some path)) en)) =
           (if frames_read body = [] then exit_status e
            else (case write_res en of Raise e' \<Rightarrow> Raised e' | Ok u \<Rightarrow> exit_status e))"
  using assms
  by (simp_all add: run_def try_block_def init_def loop_rec_exit session_body_def
      finally_block_def finalize_def release_def stop_notice_def exit_status_def
      frames_read_append frames_read_listening concat_roundtrip split: outcome.splits)

subsection \<open>What the \<open>try\<close> block can emit\<close>

lemma text_to_speech_events: "text_to_speech s it = (ev, x) \<Longrightarrow> list_all try_event ev"
  by (auto simp add: text_to_speech_def split: outcome.splits)

lemma on_detect_events: "on_detect kws r it = (ev, x) \<Longrightarrow> list_all try_event ev"
  by (auto simp add: on_detect_def text_to_speech_events
      split: outcome.splits prod.splits if_splits)

lemma iteration_events: "iteration p kws out rf it = (ev, rf', r) \<Longrightarrow> list_all try_event ev"
  by (auto simp add: iteration_def on_detect_events
      split: outcome.splits sum.splits prod.splits if_splits)

lemma loop_events: "loop p kws out rf its = (ev, rf', r) \<Longrightarrow> list_all try_event ev"
proof (induction its arbitrary: rf ev rf' r)
  case Nil
  then show ?case by simp
next
  case (Cons it its)
  obtain ev1 rf1 r1 where it1: "iteration p kws out rf it = (ev1, rf1, r1)"
    by (cases "iteration p kws out rf it") auto
  have p1: "list_all try_event ev1"
    using it1 by (rule iteration_events)
  show ?case
  proof (cases r1)
    case (Some e)
    with Cons.prems it1 p1 show ?thesis by simp
  next
    case None
    obtain ev2 rf2 r2 where l2: "loop p kws out rf1 its = (ev2, rf2, r2)"
      by (cases "loop p kws out rf1 its") auto
    have "list_all try_event ev2"
      using l2 by (rule Cons.IH)
    with Cons.prems it1 p1 None l2 show ?thesis by auto
  qed
qed

lemma listening_events: "list_all try_event (listening kws sens)"
  by (simp add: listening_def list_all_iff split_def)

lemma session_body_events: "list_all try_event (session_body lib model kps sens dev p)"
  by (simp add: session_body_def listening_events)

lemma try_block_events: "try_block d en = (ev, l, rf, x) \<Longrightarrow> list_all try_event ev"
  by (auto simp add: try_block_def listening_events loop_events
      split: outcome.splits prod.splits)

lemma loop_trace_events: "list_all try_event (loop_trace p kws its)"
  using loop_events [OF loop_norec] .

lemma try_event_phase: "try_event e \<Longrightarrow> phase e = 0"
  by (cases e) simp_all

lemma try_event_no_write: "try_event e \<Longrightarrow> \<not> is_recording_write e"
  by (cases e) simp_all

lemma try_events_no_write: "list_all try_event ev \<Longrightarrow> filter is_recording_write ev = []"
  by (simp add: list_all_iff filter_empty_conv try_event_no_write)

lemma try_events_no_stop: "list_all try_event ev \<Longrightarrow> Console Stopping \<notin> set ev"
  by (auto simp add: list_all_iff)

lemma try_events_count_delete: "list_all try_event ev \<Longrightarrow> count_list ev Porcupine_delete = 0"
  by (auto simp add: list_all_iff count_list_0_iff)

lemma try_events_count_close: "list_all try_event ev \<Longrightarrow> count_list ev Stream_close = 0"
  by (auto simp add: list_all_iff count_list_0_iff)

lemma try_events_sorted:
  "list_all try_event xs \<Longrightarrow> sorted (map phase ys) \<Longrightarrow> sorted (map phase (xs @ ys))"
  by (induction xs) (auto simp add: try_event_phase)

lemma stop_notice_phase: "sorted (map phase (stop_notice e @ ys)) = sorted (map phase ys)"
  by (simp add: stop_notice_def)

subsection \<open>Acquisitions and releases in a trace\<close>

lemma acquired_append: "acquired (xs @ ys) = acquired xs @ acquired ys"
  by (induction xs rule: acquired.induct) simp_all

lemma released_append: "released (xs @ ys) = released xs @ released ys"
  by (induction xs rule: released.induct) simp_all

lemma text_to_speech_pass: "text_to_speech s it = (ev, x) \<Longrightarrow> list_all pass_event ev"
  by (auto simp add: text_to_speech_def split: outcome.splits)

lemma on_detect_pass: "on_detect kws r it = (ev, x) \<Longrightarrow> list_all pass_event ev"
  by (auto simp add: on_detect_def text_to_speech_pass
      split: outcome.splits prod.splits if_splits)

lemma iteration_pass: "iteration p kws out rf it = (ev, rf', r) \<Longrightarrow> list_all pass_event ev"
  by (auto simp add: iteration_def on_detect_pass
      split: outcome.splits sum.splits prod.splits if_splits)

lemma loop_pass: "loop p kws out rf its = (ev, rf', r) \<Longrightarrow> list_all pass_event ev"
proof (induction its arbitrary: rf ev rf' r)
  case Nil
  then show ?case by simp
next
  case (Cons it its)
  obtain ev1 rf1 r1 where it1: "iteration p kws out rf it = (ev1, rf1, r1)"
    by (cases "iteration p kws out rf it") auto
  have p1: "list_all pass_event ev1"
    using it1 by (rule iteration_pass)
  show ?case
  proof (cases r1)
    case (Some e)
    with Cons.prems it1 p1 show ?thesis by simp
  next
    case None
    obtain ev2 rf2 r2 where l2: "loop p kws out rf1 its = (ev2, rf2, r2)"
      by (cases "loop p kws out rf1 its") auto
    have "list_all pass_event ev2"
      using l2 by (rule Cons.IH)
    with Cons.prems it1 p1 None l2 show ?thesis by auto
  qed
qed

lemma pass_events_acquired: "list_all pass_event ev \<Longrightarrow> acquired ev = []"
proof (induction ev)
  case Nil
  show ?case by simp
next
  case (Cons e ev)
  then show ?case by (cases e) simp_all
qed

lemma loop_acquired: "loop p kws out rf its = (ev, rf', r) \<Longrightarrow> acquired ev = []"
  by (rule pass_events_acquired [OF loop_pass])

lemma acquired_items: "acquired (map (\<lambda>(k, s). Console (Listening_item k s)) zs) = []"
  by (induction zs) auto

lemma listening_acquired: "acquired (listening kws sens) = []"
  by (simp add: listening_def acquired_append acquired_items)

lemma try_block_acquired:
  "try_block d en = (ev, l, rf, x) \<Longrightarrow>
     acquired ev =
       Detector #
       (if is_ok (create_res en)
        then Audio_system # (if is_ok (pa_res en) then [Stream] else [])
        else [])"
  by (auto simp add: try_block_def acquired_append listening_acquired loop_acquired
      split: outcome.splits prod.splits)

lemma tail_acquired:
  "acquired (stop_notice e @ release l @ fst (finalize po out rf wr)) = []"
  by (simp add: stop_notice_def release_def finalize_def split: option.splits)

lemma try_events_released: "list_all try_event ev \<Longrightarrow> released ev = []"
proof (induction ev)
  case Nil
  show ?case by simp
next
  case (Cons e ev)
  then show ?case by (cases e) simp_all
qed

lemma tail_released:
  "released (stop_notice e @ release l @ fst (finalize po out rf wr)) =
     (if l_porcupine l \<noteq> None then [Detector] else []) @
     (if l_audio_stream l then [Stream] else []) @
     (if l_pa l then [Audio_system] else [])"
  by (simp add: stop_notice_def release_def finalize_def split: option.splits)

lemma try_events_count_terminate:
  "list_all try_event ev \<Longrightarrow> count_list ev PyAudio_terminate = 0"
  by (auto simp add: list_all_iff count_list_0_iff)

lemma tail_count_terminate:
  "count_list (stop_notice e @ release l @ fst (finalize po out rf wr)) PyAudio_terminate =
     (if l_pa l then 1 else 0)"
  by (simp add: stop_notice_def release_def finalize_def split: option.splits)

subsection \<open>The shape of every run\<close>

lemma try_block_locals:
  "try_block d en = (ev, l, rf, x) \<Longrightarrow>
     (l_porcupine l \<noteq> None) = is_ok (create_res en) \<and>
     l_pa l = (is_ok (create_res en) \<and> is_ok (pa_res en)) \<and>
     l_audio_stream l = (is_ok (create_res en) \<and> is_ok (pa_res en) \<and> is_ok (open_res en))"
  by (auto simp add: try_block_def split: outcome.splits prod.splits)

lemma run_running:
  "try_block d en = (ev, l, rf, None) \<Longrightarrow> run d en = (ev, d\<lparr>recorded_frames := rf\<rparr>, Running)"
  by (simp add: run_def)

lemma run_exited:
  "try_block d en = (ev, l, rf, Some e) \<Longrightarrow>
   run d en =
     (ev @ stop_notice e @ release l @
        fst (finalize (l_porcupine l) (output_path d) rf (write_res en)),
      d\<lparr>recorded_frames := rf\<rparr>,
      (case snd (finalize (l_porcupine l) (output_path d) rf (write_res en)) of
         Some e' \<Rightarrow> Raised e'
       | None \<Rightarrow> exit_status e))"
  by (simp add: run_def finally_block_def stop_notice_def exit_status_def
      split: prod.splits option.splits)

lemma release_sorted: "sorted (map phase (release l @ fst (finalize po out rf wr)))"
  by (simp add: release_def finalize_def split: option.splits)

lemma release_count_delete:
  "count_list (release l) Porcupine_delete = (if l_porcupine l \<noteq> None then 1 else 0)"
  by (simp add: release_def)

lemma release_count_close:
  "count_list (release l) Stream_close = (if l_audio_stream l then 1 else 0)"
  by (simp add: release_def)

lemma finalize_count_delete: "count_list (fst (finalize po out rf wr)) Porcupine_delete = 0"
  by (simp add: finalize_def split: option.splits)

lemma finalize_count_close: "count_list (fst (finalize po out rf wr)) Stream_close = 0"
  by (simp add: finalize_def split: option.splits)

lemma stop_notice_count_delete: "count_list (stop_notice e) Porcupine_delete = 0"
  by (simp add: stop_notice_def)

lemma stop_notice_count_close: "count_list (stop_notice e) Stream_close = 0"
  by (simp add: stop_notice_def)

lemma finalize_write:
  "Soundfile_write path s r \<in> set (fst (finalize po out rf wr)) \<Longrightarrow>
     \<exists>fs. rf = Some fs \<and> fs \<noteq> [] \<and> s = map word_of_int (concat fs)"
  by (auto simp add: finalize_def split: option.splits if_splits)

lemma release_no_write: "Soundfile_write path s r \<notin> set (release l)"
  by (simp add: release_def)

subsection \<open>Passes without a detection\<close>

lemma iteration_no_match:
  "no_match it \<Longrightarrow> iteration p kws out rf it = (ev, rf', r) \<Longrightarrow>
   list_all (\<lambda>e. \<not> is_reaction e) ev"
  by (auto simp add: no_match_def iteration_def
      split: outcome.splits sum.splits prod.splits if_splits)

lemma loop_no_match:
  "list_all no_match its \<Longrightarrow> loop p kws out rf its = (ev, rf', r) \<Longrightarrow>
   list_all (\<lambda>e. \<not> is_reaction e) ev"
proof (induction its arbitrary: rf ev rf' r)
  case Nil
  then show ?case by simp
next
  case (Cons it its)
  obtain ev1 rf1 r1 where it1: "iteration p kws out rf it = (ev1, rf1, r1)"
    by (cases "iteration p kws out rf it") auto
  have "no_match it"
    using Cons.prems(1) by simp
  then have p1: "list_all (\<lambda>e. \<not> is_reaction e) ev1"
    using it1 by (rule iteration_no_match)
  show ?case
  proof (cases r1)
    case (Some e)
    with Cons.prems it1 p1 show ?thesis by simp
  next
    case None
    obtain ev2 rf2 r2 where l2: "loop p kws out rf1 its = (ev2, rf2, r2)"
      by (cases "loop p kws out rf1 its") auto
    have "list_all no_match its"
      using Cons.prems(1) by simp
    then have "list_all (\<lambda>e. \<not> is_reaction e) ev2"
      using l2 by (rule Cons.IH)
    with Cons.prems it1 p1 None l2 show ?thesis by auto
  qed
qed

lemma listening_no_reaction: "list_all (\<lambda>e. \<not> is_reaction e) (listening kws sens)"
  by (simp add: listening_def list_all_iff split_def)

lemma try_block_no_match:
  "list_all no_match (iters en) \<Longrightarrow> try_block d en = (ev, l, rf, x) \<Longrightarrow>
   list_all (\<lambda>e. \<not> is_reaction e) ev"
  by (auto simp add: try_block_def listening_no_reaction loop_no_match
      split: outcome.splits prod.splits)

lemma tail_no_reaction:
  "list_all (\<lambda>e. \<not> is_reaction e) (stop_notice e @ release l @ fst (finalize po out rf wr))"
  by (simp add: stop_notice_def release_def finalize_def split: option.splits)

lemma run_no_match:
  assumes "list_all no_match (iters en)"
  shows "list_all (\<lambda>e. \<not> is_reaction e) (fst (run d en))"
proof -
  obtain ev l rf x where tb: "try_block d en = (ev, l, rf, x)"
    by (cases "try_block d en") auto
  have evs: "list_all (\<lambda>e. \<not> is_reaction e) ev"
    using assms tb by (rule try_block_no_match)
  show ?thesis
  proof (cases x)
    case None
    with tb evs show ?thesis by (simp add: run_running)
  next
    case (Some e)
    with tb evs tail_no_reaction [of e l "l_porcupine l" "output_path d" rf "write_res en"]
    show ?thesis by (simp add: run_exited)
  qed
qed

subsection \<open>Sessions without an output path\<close>

lemma try_block_norec_frames:
  "try_block (init lib model kps sens dev None) en = (ev, l, rf, x) \<Longrightarrow> rf = None"
  by (auto simp add: try_block_def init_def loop_norec split: outcome.splits)

lemma output_kinds:
  "\<not> is_recording_write e \<Longrightarrow> is_output e \<Longrightarrow> is_console e \<or> is_speech_output e"
  by (cases e) simp_all

lemma output_console:
  "\<not> is_reaction e \<Longrightarrow> \<not> is_recording_write e \<Longrightarrow> is_output e \<Longrightarrow> is_console e"
  by (cases e) simp_all

lemma try_block_write_res: "try_block d (en\<lparr>write_res := wr\<rparr>) = try_block d en"
  by (simp add: try_block_def split: outcome.splits)

subsection \<open>Passes that run to their end\<close>

lemma text_to_speech_ok:
  "text_to_speech s it = (ev, x) \<Longrightarrow>
     (x = None) = (is_ok (synth_res it) \<and> is_ok (speech_file_res it) \<and> is_ok (play_res it))"
  by (auto simp add: text_to_speech_def split: outcome.splits)

lemma on_detect_ok:
  "(snd (on_detect kws r it) = None) =
     (nat r < length kws \<and> is_ok (weather_res it) \<and> is_ok (spoken_res it) \<and>
      is_ok (synth_res it) \<and> is_ok (speech_file_res it) \<and> is_ok (play_res it))"
  by (auto simp add: on_detect_def text_to_speech_ok split: outcome.splits prod.splits)

text \<open>A good pass, in terms of the environment alone: the device delivers a full frame,
  the detector answers, and either the answer is negative or it is the index of a
  keyword and every call of the reaction returns.\<close>

lemma good_pass_iff:
  "good_pass p kws it =
     (\<exists>b r. read_res it = Ok b \<and> length b = frame_length p \<and> process_res it = Ok r \<and>
        (r < 0 \<or>
         nat r < length kws \<and> is_ok (weather_res it) \<and> is_ok (spoken_res it) \<and>
         is_ok (synth_res it) \<and> is_ok (speech_file_res it) \<and> is_ok (play_res it)))"
proof (cases "read_res it")
  case (Raise e)
  then show ?thesis
    by (simp add: good_pass_def pass_exn_def iteration_def)
next
  case b: (Ok b)
  show ?thesis
  proof (cases "process_res it")
    case (Raise e)
    with b show ?thesis
      by (simp add: good_pass_def pass_exn_def iteration_def unpack_from_def record_frame_def
          full_frame_def)
  next
    case r: (Ok r)
    show ?thesis
    proof (cases "r < 0")
      case True
      with b r show ?thesis
        by (auto simp add: good_pass_def pass_exn_def iteration_def unpack_from_def
            record_frame_def full_frame_def)
    next
      case False
      with b r on_detect_ok [of kws r it] show ?thesis
        by (auto simp add: good_pass_def pass_exn_def iteration_def unpack_from_def
            record_frame_def full_frame_def split: prod.splits)
    qed
  qed
qed

text \<open>The interrupt arrives while the loop waits for a frame.\<close>

lemma interrupted_read:
  "read_res it = Raise KeyboardInterrupt \<Longrightarrow> pass_exn p kws it = Some KeyboardInterrupt"
  by (simp add: pass_exn_def iteration_def)

subsection \<open>Reads in a trace\<close>

lemma reads_text_to_speech:
  "text_to_speech s it = (ev, x) \<Longrightarrow> list_all (\<lambda>e. \<not> is_read e \<and> \<not> is_detected e) ev"
  by (auto simp add: text_to_speech_def split: outcome.splits)

lemma on_detect_head:
  assumes "nat r < length kws"
  shows "\<exists>R. fst (on_detect kws r it) = Console (Detected (now it) (kws ! nat r)) # R \<and>
             list_all (\<lambda>e. \<not> is_read e \<and> \<not> is_detected e) R"
proof -
  obtain ev x where t: "text_to_speech (case spoken_res it of Ok s \<Rightarrow> s | Raise e \<Rightarrow> []) it = (ev, x)"
    by (cases "text_to_speech (case spoken_res it of Ok s \<Rightarrow> s | Raise e \<Rightarrow> []) it") auto
  have "list_all (\<lambda>e. \<not> is_read e \<and> \<not> is_detected e) ev"
    using t by (rule reads_text_to_speech)
  with assms t show ?thesis
    by (auto simp add: on_detect_def split: outcome.splits prod.splits)
qed

lemma on_detect_no_read: "on_detect kws r it = (ev, x) \<Longrightarrow> list_all (\<lambda>e. \<not> is_read e) ev"
  using reads_text_to_speech
  by (fastforce simp add: on_detect_def list_all_iff split: outcome.splits prod.splits if_splits)

lemma pass_trace_head:
  "\<exists>rest. pass_trace p kws it = Stream_read (frame_length p) (read_res it) # rest \<and>
          list_all (\<lambda>e. \<not> is_read e) rest"
  by (auto simp add: pass_trace_def iteration_def record_frame_def on_detect_no_read
      split: outcome.splits sum.splits prod.splits)

lemma reads_pass_trace:
  "filter is_read (pass_trace p kws it) = [Stream_read (frame_length p) (read_res it)]"
proof -
  obtain rest where r: "pass_trace p kws it = Stream_read (frame_length p) (read_res it) # rest"
    "list_all (\<lambda>e. \<not> is_read e) rest"
    using pass_trace_head by blast
  then show ?thesis
    by (simp add: list_all_iff filter_empty_conv)
qed

lemma reads_passes:
  "length (filter is_read (concat (map (pass_trace p kws) its))) = length its"
  by (induction its) (simp_all add: reads_pass_trace)

lemma reads_listening: "filter is_read (listening kws sens) = []"
  by (simp add: listening_def filter_empty_conv split_def)

lemma reads_session_body: "filter is_read (session_body lib model kps sens dev p) = []"
  by (simp add: session_body_def reads_listening)

lemma reads_trace_through:
  "length (filter is_read (trace_through lib model kps sens dev p its)) = length its"
  by (simp add: trace_through_def reads_session_body reads_passes)

lemma frames_read_trace_through:
  "list_all (good_pass p (keywords_of kps)) its \<Longrightarrow>
   frames_read (trace_through lib model kps sens dev p its) = map frame_of its"
  by (simp add: trace_through_def frames_read_append frames_read_session_body
      frames_read_good_passes)

lemma pass_trace_events: "list_all try_event (pass_trace p kws it)"
  using iteration_events [OF iteration_norec] .

lemma trace_through_events: "list_all try_event (trace_through lib model kps sens dev p its)"
  by (induction its rule: rev_induct)
     (simp_all add: trace_through_def session_body_events pass_trace_events)

lemma from_read_skip:
  "length (filter is_read xs) = n \<Longrightarrow> from_read (n + k) (xs @ ys) = from_read k ys"
  by (induction xs arbitrary: n) auto

lemma loop_trace_takeWhile:
  "takeWhile (\<lambda>x. \<not> is_read x) (loop_trace p kws its @ zs) =
     (if its = [] then takeWhile (\<lambda>x. \<not> is_read x) zs else [])"
proof (cases its)
  case Nil
  then show ?thesis by (simp add: loop_trace_Nil)
next
  case (Cons it its')
  obtain rest where "pass_trace p kws it = Stream_read (frame_length p) (read_res it) # rest"
    using pass_trace_head by blast
  with Cons show ?thesis by (simp add: loop_trace_Cons)
qed

subsection \<open>The trace of a run of a fresh object\<close>

lemma iteration_any:
  "\<exists>fs'. iteration p kws (Some path) (Some fs) it =
            (pass_trace p kws it, Some fs', pass_exn p kws it)"
  by (auto simp add: pass_trace_def pass_exn_def iteration_def record_frame_def
      split: outcome.splits sum.splits prod.splits)

lemma loop_any:
  "\<exists>fs'. loop p kws (Some path) (Some fs) its =
            (loop_trace p kws its, Some fs', loop_exn p kws its)"
proof (induction its arbitrary: fs)
  case Nil
  show ?case by (simp add: loop_trace_Nil loop_exn_Nil)
next
  case (Cons it its)
  obtain fs1 where i: "iteration p kws (Some path) (Some fs) it =
      (pass_trace p kws it, Some fs1, pass_exn p kws it)"
    using iteration_any by blast
  obtain fs2 where l: "loop p kws (Some path) (Some fs1) its =
      (loop_trace p kws its, Some fs2, loop_exn p kws its)"
    using Cons.IH by blast
  show ?case
    using i l by (cases "pass_exn p kws it") (simp_all add: loop_trace_Cons loop_exn_Cons)
qed

lemma loop_init:
  "\<exists>rf. loop p kws out (recorded_frames (init lib model kps sens dev out)) its =
           (loop_trace p kws its, rf, loop_exn p kws its)"
proof (cases out)
  case None
  then show ?thesis by (simp add: init_def loop_norec)
next
  case (Some path)
  then show ?thesis using loop_any [of p kws path "[]" its] by (auto simp add: init_def)
qed

lemma tail_no_read:
  "list_all (\<lambda>e. \<not> is_read e \<and> \<not> is_detected e)
     (stop_notice e @ release l @ fst (finalize po out rf wr))"
  by (simp add: stop_notice_def release_def finalize_def split: option.splits)

lemma run_trace_shape:
  assumes "create_res en = Ok p" "pa_res en = Ok ()" "open_res en = Ok ()"
  shows "\<exists>tail. fst (run (init lib model kps sens dev out) en) =
                  session_body lib model kps sens dev p @
                  loop_trace p (keywords_of kps) (iters en) @ tail \<and>
                list_all (\<lambda>e. \<not> is_read e \<and> \<not> is_detected e) tail"
proof -
  let ?d = "init lib model kps sens dev out"
  obtain rf where l: "loop p (keywords_of kps) out (recorded_frames ?d) (iters en) =
      (loop_trace p (keywords_of kps) (iters en), rf, loop_exn p (keywords_of kps) (iters en))"
    using loop_init by blast
  have sel: "keyword_paths ?d = kps" "output_path ?d = out" "library_path ?d = lib"
    "model_path ?d = model" "sensitivities ?d = sens" "input_device_index ?d = dev"
    by (simp_all add: init_def)
  have tb: "try_block ?d en =
      (session_body lib model kps sens dev p @ loop_trace p (keywords_of kps) (iters en),
       \<lparr>l_porcupine = Some p, l_pa = True, l_audio_stream = True\<rparr>, rf,
       loop_exn p (keywords_of kps) (iters en))"
    using assms l by (simp add: try_block_def sel session_body_def)
  show ?thesis
  proof (cases "loop_exn p (keywords_of kps) (iters en)")
    case None
    with tb have "fst (run ?d en) =
        session_body lib model kps sens dev p @ loop_trace p (keywords_of kps) (iters en) @ []"
      by (simp add: run_running)
    then show ?thesis by (intro exI [of _ "[]"]) simp
  next
    case (Some e)
    let ?tail = "stop_notice e @
        release \<lparr>l_porcupine = Some p, l_pa = True, l_audio_stream = True\<rparr> @
        fst (finalize (Some p) out rf (write_res en))"
    from Some tb have "fst (run ?d en) =
        session_body lib model kps sens dev p @ loop_trace p (keywords_of kps) (iters en) @ ?tail"
      by (simp add: run_exited sel)
    moreover have "list_all (\<lambda>e. \<not> is_read e \<and> \<not> is_detected e) ?tail"
      by (rule tail_no_read)
    ultimately show ?thesis by blast
  qed
qed

subsection \<open>The example sessions, evaluated\<close>

lemmas example_defs =
  demo0_def ok_env_def porc0_def quiet_pass_def match_pass_def interrupt_pass_def
  stream_error_pass_def failing_reaction_pass_def

lemmas model_defs =
  run_def init_def try_block_def iteration_def unpack_from_def record_frame_def on_detect_def
  text_to_speech_def finally_block_def finalize_def release_def listening_def keywords_of_def
  keyword_label_def basename_def

lemma label_example: "keywords_of [''/m/porcupine_linux.ppn''] = [''porcupine'']"
  by (simp add: keywords_of_def keyword_label_def basename_def)

lemma run_recording_example:
  "run (demo0 (Some ''rec.wav'')) (ok_env [quiet_pass, match_pass, interrupt_pass]) =
     ([Porcupine_create ''lib'' ''model'' [''/m/porcupine_linux.ppn''] [1 / 2], PyAudio_init,
       Stream_open 16000 2 None, Console Listening_open,
       Console (Listening_item ''porcupine'' (1 / 2)), Console Listening_close,
       Stream_read 2 (Ok [1, - 1]), Porcupine_process [1, - 1],
       Stream_read 2 (Ok [2, 3]), Porcupine_process [2, 3],
       Console (Detected ''12:00'' ''porcupine''), Get_weather, Console (Spoken ''Sunny''),
       Synthesize_speech ''Sunny'', Speech_file_write ''output.wav'' [82],
       Console Audio_written, Play ''output.wav'',
       Stream_read 2 (Raise KeyboardInterrupt), Console Stopping,
       Porcupine_delete, Stream_close, PyAudio_terminate,
       Soundfile_write ''rec.wav'' [1, - 1, 2, 3] 16000],
      (demo0 (Some ''rec.wav''))\<lparr>recorded_frames := Some [[1, - 1], [2, 3]]\<rparr>,
      Returned)"
  by (simp add: example_defs model_defs)

lemma run_interrupt_example:
  "run (demo0 None) (ok_env [interrupt_pass]) =
     ([Porcupine_create ''lib'' ''model'' [''/m/porcupine_linux.ppn''] [1 / 2], PyAudio_init,
       Stream_open 16000 2 None, Console Listening_open,
       Console (Listening_item ''porcupine'' (1 / 2)), Console Listening_close,
       Stream_read 2 (Raise KeyboardInterrupt), Console Stopping,
       Porcupine_delete, Stream_close, PyAudio_terminate],
      demo0 None, Returned)"
  by (simp add: example_defs model_defs)

lemma run_detection_example:
  "run (demo0 None) (ok_env [match_pass, interrupt_pass]) =
     ([Porcupine_create ''lib'' ''model'' [''/m/porcupine_linux.ppn''] [1 / 2], PyAudio_init,
       Stream_open 16000 2 None, Console Listening_open,
       Console (Listening_item ''porcupine'' (1 / 2)), Console Listening_close,
       Stream_read 2 (Ok [2, 3]), Porcupine_process [2, 3],
       Console (Detected ''12:00'' ''porcupine''), Get_weather, Console (Spoken ''Sunny''),
       Synthesize_speech ''Sunny'', Speech_file_write ''output.wav'' [82],
       Console Audio_written, Play ''output.wav'',
       Stream_read 2 (Raise KeyboardInterrupt), Console Stopping,
       Porcupine_delete, Stream_close, PyAudio_terminate],
      demo0 None, Returned)"
  by (simp add: example_defs model_defs)

lemma run_quiet_example:
  "run (demo0 None) (ok_env [quiet_pass, quiet_pass, interrupt_pass]) =
     ([Porcupine_create ''lib'' ''model'' [''/m/porcupine_linux.ppn''] [1 / 2], PyAudio_init,
       Stream_open 16000 2 None, Console Listening_open,
       Console (Listening_item ''porcupine'' (1 / 2)), Console Listening_close,
       Stream_read 2 (Ok [1, - 1]), Porcupine_process [1, - 1],
       Stream_read 2 (Ok [1, - 1]), Porcupine_process [1, - 1],
       Stream_read 2 (Raise KeyboardInterrupt), Console Stopping,
       Porcupine_delete, Stream_close, PyAudio_terminate],
      demo0 None, Returned)"
  by (simp add: example_defs model_defs)

lemma run_empty_recording_example:
  "run (demo0 (Some ''rec.wav'')) ((ok_env [interrupt_pass])\<lparr>write_res := Raise IOError\<rparr>) =
     ([Porcupine_create ''lib'' ''model'' [''/m/porcupine_linux.ppn''] [1 / 2], PyAudio_init,
       Stream_open 16000 2 None, Console Listening_open,
       Console (Listening_item ''porcupine'' (1 / 2)), Console Listening_close,
       Stream_read 2 (Raise KeyboardInterrupt), Console Stopping,
       Porcupine_delete, Stream_close, PyAudio_terminate],
      demo0 (Some ''rec.wav''), Returned)"
  by (simp add: example_defs model_defs)

lemma run_failing_reaction_example:
  "run (demo0 None) (ok_env [failing_reaction_pass, match_pass, quiet_pass]) =
     ([Porcupine_create ''lib'' ''model'' [''/m/porcupine_linux.ppn''] [1 / 2], PyAudio_init,
       Stream_open 16000 2 None, Console Listening_open,
       Console (Listening_item ''porcupine'' (1 / 2)), Console Listening_close,
       Stream_read 2 (Ok [2, 3]), Porcupine_process [2, 3],
       Console (Detected ''12:00'' ''porcupine''), Get_weather,
       Porcupine_delete, Stream_close, PyAudio_terminate],
      demo0 None, Raised ReactionError)"
  by (simp add: example_defs model_defs)

section \<open>The claims\<close>

text \<open>
  C6. A command line whose number of keyword model paths differs from its number of
  sensitivities does not start a session: \<open>main\<close> raises the \<open>ValueError\<close> of line 289
  and has made no call at all before it (the trace is empty), so no device was opened
  and nothing was acquired. The command line asks for a session (not for the device
  list) and names its keywords.
\<close>

theorem count_mismatch_fails_first:
  assumes "\<not> a_show_audio_devices a"
    and "resolve_keyword_paths kp a = Inr kps"
    and "a_sensitivities a = Some sens"
    and "length kps \<noteq> length sens"
  shows "main kp a en =
           ([], Raised (ValueError
                  ''Number of keywords does not match the number of sensitivities.''))"
  using assms by (simp add: main_def)

theorem count_mismatch_fails_first_witness:
  "main Map.empty args0 (ok_env [quiet_pass]) =
     ([], Raised (ValueError
            ''Number of keywords does not match the number of sensitivities.''))"
  by (rule count_mismatch_fails_first
        [where kps = "[''/m/porcupine_linux.ppn'', ''/m/bumblebee_linux.ppn'']"
           and sens = "[1 / 2]"])
     (simp_all add: args0_def resolve_keyword_paths_def)

text \<open>
  C3. In a session that records (an output path is given) and whose device delivers full
  frames, whichever way the session leaves the loop, what it hands to \<open>soundfile.write\<close>
  is one recording: the concatenation, sample for sample and in the order of arrival,
  of all the frames the device delivered, as 16-bit samples at the detector's sample
  rate; when no frame was delivered nothing is written.
\<close>

theorem recording_is_concatenation:
  assumes cr: "create_res en = Ok p"
    and ff: "list_all (full_frame p) (iters en)"
    and ex: "snd (snd (run (init lib model kps sens dev (Some path)) en)) \<noteq> Running"
  shows "filter is_recording_write (fst (run (init lib model kps sens dev (Some path)) en)) =
           (if frames_read (fst (run (init lib model kps sens dev (Some path)) en)) = [] then []
            else [Soundfile_write path
                    (concat (frames_read (fst (run (init lib model kps sens dev (Some path)) en))))
                    (sample_rate p)])"
proof (cases "pa_res en")
  case (Raise e)
  with cr show ?thesis
    by (simp add: run_def try_block_def init_def finally_block_def finalize_def release_def)
next
  case Ok1: (Ok u)
  show ?thesis
  proof (cases "open_res en")
    case (Raise e)
    with cr Ok1 show ?thesis
      by (simp add: run_def try_block_def init_def finally_block_def finalize_def release_def)
  next
    case Ok2: (Ok u')
    have tb: "try_block (init lib model kps sens dev (Some path)) en =
           (session_body lib model kps sens dev p @ loop_trace p (keywords_of kps) (iters en),
            \<lparr>l_porcupine = Some p, l_pa = True, l_audio_stream = True\<rparr>,
            Some (map (map sint) (frames_read (loop_trace p (keywords_of kps) (iters en)))),
            loop_exn p (keywords_of kps) (iters en))"
      using cr Ok1 Ok2 ff by (simp add: try_block_def init_def loop_rec session_body_def)
    have op: "output_path (init lib model kps sens dev (Some path)) = Some path"
      by (simp add: init_def)
    show ?thesis
    proof (cases "loop_exn p (keywords_of kps) (iters en)")
      case None
      with ex tb show ?thesis by (simp add: run_def)
    next
      case (Some e)
      have w1: "filter is_recording_write (session_body lib model kps sens dev p) = []"
        by (rule try_events_no_write [OF session_body_events])
      have w2: "filter is_recording_write (loop_trace p (keywords_of kps) (iters en)) = []"
        by (rule try_events_no_write [OF loop_trace_events])
      have w3: "filter is_recording_write (stop_notice e) = []"
        by (simp add: stop_notice_def)
      have f3: "frames_read (stop_notice e) = []"
        by (simp add: stop_notice_def)
      from Some tb op w1 w2 w3 f3 show ?thesis
        by (simp add: run_def finally_block_def finalize_def release_def
            frames_read_append frames_read_session_body concat_roundtrip
            stop_notice_def [symmetric])
    qed
  qed
qed

theorem recording_is_concatenation_witness:
  "create_res (ok_env [quiet_pass, match_pass, interrupt_pass]) = Ok porc0 \<and>
   list_all (full_frame porc0) (iters (ok_env [quiet_pass, match_pass, interrupt_pass])) \<and>
   snd (snd (run (demo0 (Some ''rec.wav'')) (ok_env [quiet_pass, match_pass, interrupt_pass])))
     \<noteq> Running \<and>
   filter is_recording_write
     (fst (run (demo0 (Some ''rec.wav'')) (ok_env [quiet_pass, match_pass, interrupt_pass]))) =
     [Soundfile_write ''rec.wav'' [1, - 1, 2, 3] 16000]"
proof -
  let ?en = "ok_env [quiet_pass, match_pass, interrupt_pass]"
  have h1: "create_res ?en = Ok porc0"
    by (simp add: ok_env_def)
  have h2: "list_all (full_frame porc0) (iters ?en)"
    by (simp add: example_defs full_frame_def)
  have h3: "snd (snd (run (init ''lib'' ''model'' [''/m/porcupine_linux.ppn''] [1 / 2] None
                 (Some ''rec.wav'')) ?en)) \<noteq> Running"
    using run_recording_example by (simp add: demo0_def)
  show ?thesis
    using h1 h2 h3 recording_is_concatenation [OF h1 h2 h3] run_recording_example
    by (simp add: demo0_def)
qed

text \<open>
  C1 (as amended). The session makes its acquiring calls in the order detector, PyAudio,
  stream, each only if the one before returned. On every exit the \<open>finally\<close> block gives
  back, in one fixed order, what was acquired: the detector first, then the stream,
  then PyAudio, each exactly once, and nothing that was not acquired. That is the
  order in which detector and stream were acquired, not its reverse. The trace is
  ordered by phase, so everything the session did comes before the releases and the
  recording is written only after all of them; and a recording is written only from
  a buffer that holds at least one frame.
\<close>

theorem release_order:
  "sorted (map phase (fst (run d en))) \<and>
   (snd (snd (run d en)) \<noteq> Running \<longrightarrow>
      count_list (fst (run d en)) Porcupine_delete = (if is_ok (create_res en) then 1 else 0) \<and>
      count_list (fst (run d en)) Stream_close =
        (if is_ok (create_res en) \<and> is_ok (pa_res en) \<and> is_ok (open_res en) then 1 else 0) \<and>
      count_list (fst (run d en)) PyAudio_terminate =
        (if is_ok (create_res en) \<and> is_ok (pa_res en) then 1 else 0) \<and>
      released (fst (run d en)) =
        (if is_ok (create_res en) then [Detector] else []) @
        (if is_ok (create_res en) \<and> is_ok (pa_res en) \<and> is_ok (open_res en)
         then [Stream] else []) @
        (if is_ok (create_res en) \<and> is_ok (pa_res en) then [Audio_system] else []) \<and>
      (is_ok (create_res en) \<longrightarrow>
         released (fst (run d en)) \<noteq> rev (acquired (fst (run d en))))) \<and>
   acquired (fst (run d en)) =
     Detector #
     (if is_ok (create_res en)
      then Audio_system # (if is_ok (pa_res en) then [Stream] else [])
      else []) \<and>
   (\<forall>path s r. Soundfile_write path s r \<in> set (fst (run d en)) \<longrightarrow>
      (\<exists>fs. recorded_frames (fst (snd (run d en))) = Some fs \<and> fs \<noteq> [] \<and>
            s = map word_of_int (concat fs)))"
proof -
  obtain ev l rf x where tb: "try_block d en = (ev, l, rf, x)"
    by (cases "try_block d en") auto
  have evs: "list_all try_event ev"
    using tb by (rule try_block_events)
  have loc: "(l_porcupine l \<noteq> None) = is_ok (create_res en)"
    "l_audio_stream l = (is_ok (create_res en) \<and> is_ok (pa_res en) \<and> is_ok (open_res en))"
    "l_pa l = (is_ok (create_res en) \<and> is_ok (pa_res en))"
    using try_block_locals [OF tb] by simp_all
  have acq: "acquired ev =
      Detector #
      (if is_ok (create_res en)
       then Audio_system # (if is_ok (pa_res en) then [Stream] else [])
       else [])"
    using tb by (rule try_block_acquired)
  show ?thesis
  proof (cases x)
    case None
    then have r: "run d en = (ev, d\<lparr>recorded_frames := rf\<rparr>, Running)"
      using tb by (simp add: run_running)
    have "sorted (map phase ev)"
      using try_events_sorted [OF evs, of "[]"] by simp
    moreover have "Soundfile_write path s r \<notin> set ev" for path s r
      using evs by (auto simp add: list_all_iff)
    ultimately show ?thesis
      using r acq by simp
  next
    case (Some e)
    let ?fin = "finalize (l_porcupine l) (output_path d) rf (write_res en)"
    let ?tail = "stop_notice e @ release l @ fst ?fin"
    have r: "fst (run d en) = ev @ stop_notice e @ release l @ fst ?fin"
      "fst (snd (run d en)) = d\<lparr>recorded_frames := rf\<rparr>"
      using tb Some by (simp_all add: run_exited)
    have s: "sorted (map phase (fst (run d en)))"
      unfolding r
      by (rule try_events_sorted [OF evs]) (simp only: stop_notice_phase release_sorted)
    have c1: "count_list (fst (run d en)) Porcupine_delete =
                (if is_ok (create_res en) then 1 else 0)"
      unfolding r using loc
      by (simp add: try_events_count_delete [OF evs] stop_notice_count_delete
          release_count_delete finalize_count_delete)
    have c2: "count_list (fst (run d en)) Stream_close =
                (if is_ok (create_res en) \<and> is_ok (pa_res en) \<and> is_ok (open_res en)
                 then 1 else 0)"
      unfolding r using loc
      by (simp add: try_events_count_close [OF evs] stop_notice_count_close
          release_count_close finalize_count_close)
    have "count_list (ev @ ?tail) PyAudio_terminate = (if l_pa l then 1 else 0)"
      using try_events_count_terminate [OF evs]
        tail_count_terminate [of e l "l_porcupine l" "output_path d" rf "write_res en"]
      by simp
    then have c3: "count_list (fst (run d en)) PyAudio_terminate =
                (if is_ok (create_res en) \<and> is_ok (pa_res en) then 1 else 0)"
      unfolding r using loc by simp
    have "released (ev @ ?tail) =
            (if l_porcupine l \<noteq> None then [Detector] else []) @
            (if l_audio_stream l then [Stream] else []) @
            (if l_pa l then [Audio_system] else [])"
      using try_events_released [OF evs]
        tail_released [of e l "l_porcupine l" "output_path d" rf "write_res en"]
      by (simp only: released_append append_Nil)
    then have rl: "released (fst (run d en)) =
        (if is_ok (create_res en) then [Detector] else []) @
        (if is_ok (create_res en) \<and> is_ok (pa_res en) \<and> is_ok (open_res en)
         then [Stream] else []) @
        (if is_ok (create_res en) \<and> is_ok (pa_res en) then [Audio_system] else [])"
      unfolding r using loc by simp
    have "acquired (ev @ ?tail) = acquired ev"
      using tail_acquired [of e l "l_porcupine l" "output_path d" rf "write_res en"]
      by (simp only: acquired_append append_Nil2)
    then have aq: "acquired (fst (run d en)) =
        Detector #
        (if is_ok (create_res en)
         then Audio_system # (if is_ok (pa_res en) then [Stream] else [])
         else [])"
      unfolding r using acq by simp
    have nr: "released (fst (run d en)) \<noteq> rev (acquired (fst (run d en)))"
      if "is_ok (create_res en)"
      unfolding rl aq using that by simp
    have w: "\<exists>fs. recorded_frames (fst (snd (run d en))) = Some fs \<and> fs \<noteq> [] \<and>
                  s = map word_of_int (concat fs)"
      if "Soundfile_write path s r' \<in> set (fst (run d en))" for path s r'
    proof -
      have "Soundfile_write path s r' \<notin> set ev"
        using evs by (auto simp add: list_all_iff)
      moreover have "Soundfile_write path s r' \<notin> set (stop_notice e)"
        by (simp add: stop_notice_def)
      ultimately have "Soundfile_write path s r' \<in> set (fst ?fin)"
        using that release_no_write [of path s r' l] unfolding r by auto
      then show ?thesis
        using finalize_write [of path s r'] by (simp add: r)
    qed
    from s c1 c2 c3 rl nr aq w show ?thesis by blast
  qed
qed

theorem release_order_witness:
  "sorted (map phase
     (fst (run (demo0 (Some ''rec.wav'')) (ok_env [quiet_pass, match_pass, interrupt_pass])))) \<and>
   snd (snd (run (demo0 (Some ''rec.wav'')) (ok_env [quiet_pass, match_pass, interrupt_pass])))
     \<noteq> Running \<and>
   is_ok (create_res (ok_env [quiet_pass, match_pass, interrupt_pass])) \<and>
   count_list
     (fst (run (demo0 (Some ''rec.wav'')) (ok_env [quiet_pass, match_pass, interrupt_pass])))
     Porcupine_delete = 1 \<and>
   count_list
     (fst (run (demo0 (Some ''rec.wav'')) (ok_env [quiet_pass, match_pass, interrupt_pass])))
     Stream_close = 1 \<and>
   count_list
     (fst (run (demo0 (Some ''rec.wav'')) (ok_env [quiet_pass, match_pass, interrupt_pass])))
     PyAudio_terminate = 1 \<and>
   acquired
     (fst (run (demo0 (Some ''rec.wav'')) (ok_env [quiet_pass, match_pass, interrupt_pass]))) =
     [Detector, Audio_system, Stream] \<and>
   released
     (fst (run (demo0 (Some ''rec.wav'')) (ok_env [quiet_pass, match_pass, interrupt_pass]))) =
     [Detector, Stream, Audio_system] \<and>
   released
     (fst (run (demo0 (Some ''rec.wav'')) (ok_env [quiet_pass, match_pass, interrupt_pass]))) \<noteq>
   rev (acquired
     (fst (run (demo0 (Some ''rec.wav'')) (ok_env [quiet_pass, match_pass, interrupt_pass])))) \<and>
   Soundfile_write ''rec.wav'' [1, - 1, 2, 3] 16000 \<in>
     set (fst (run (demo0 (Some ''rec.wav'')) (ok_env [quiet_pass, match_pass, interrupt_pass]))) \<and>
   (\<exists>fs. recorded_frames
           (fst (snd (run (demo0 (Some ''rec.wav''))
                        (ok_env [quiet_pass, match_pass, interrupt_pass])))) = Some fs \<and>
         fs \<noteq> [] \<and> ([1, - 1, 2, 3] :: sample list) = map word_of_int (concat fs))"
proof -
  let ?en = "ok_env [quiet_pass, match_pass, interrupt_pass]"
  let ?r = "run (demo0 (Some ''rec.wav'')) ?en"
  note ro = release_order [of "demo0 (Some ''rec.wav'')" ?en]
  have st: "snd (snd ?r) \<noteq> Running"
    using run_recording_example by simp
  have mem: "Soundfile_write ''rec.wav'' [1, - 1, 2, 3] 16000 \<in> set (fst ?r)"
    using run_recording_example by simp
  have ok: "is_ok (create_res ?en)" "is_ok (pa_res ?en)" "is_ok (open_res ?en)"
    by (simp_all add: ok_env_def)
  have s: "sorted (map phase (fst ?r))"
    using ro by blast
  note ex = ro [THEN conjunct2, THEN conjunct1, rule_format, OF st]
  have c: "count_list (fst ?r) Porcupine_delete = 1" "count_list (fst ?r) Stream_close = 1"
    "count_list (fst ?r) PyAudio_terminate = 1"
    "released (fst ?r) = [Detector, Stream, Audio_system]"
    using ex ok by simp_all
  have n: "released (fst ?r) \<noteq> rev (acquired (fst ?r))"
    using ex ok(1) by blast
  have a: "acquired (fst ?r) = [Detector, Audio_system, Stream]"
    using ro [THEN conjunct2, THEN conjunct2, THEN conjunct1] ok by simp
  have w: "\<exists>fs. recorded_frames (fst (snd ?r)) = Some fs \<and> fs \<noteq> [] \<and>
                ([1, - 1, 2, 3] :: sample list) = map word_of_int (concat fs)"
    by (rule ro [THEN conjunct2, THEN conjunct2, THEN conjunct2, rule_format, OF mem])
  from s st ok(1) c n a mem w show ?thesis by (intro conjI)
qed

text \<open>The claim as first stated asks for the reverse of the order of acquisition. The
  program acquires detector, PyAudio, stream and gives back detector, stream, PyAudio:
  the detector is the first in both.\<close>

theorem release_not_reverse_of_acquisition:
  "acquired (fst (run (demo0 None) (ok_env [interrupt_pass]))) =
     [Detector, Audio_system, Stream] \<and>
   released (fst (run (demo0 None) (ok_env [interrupt_pass]))) =
     [Detector, Stream, Audio_system] \<and>
   released (fst (run (demo0 None) (ok_env [interrupt_pass]))) \<noteq>
     rev (acquired (fst (run (demo0 None) (ok_env [interrupt_pass]))))"
  by (simp add: run_interrupt_example)

text \<open>
  C5. Whatever the number of passes, if the detector's answer is negative in every pass
  (the no-match value; \<open>result >= 0\<close> is false), the session emits no event of the
  reaction: no detection line, no weather request, no speech.
\<close>

theorem no_match_no_reaction:
  assumes "list_all no_match (iters en)"
  shows "filter is_reaction (fst (run d en)) = []"
  using run_no_match [OF assms, of d] by (simp add: list_all_iff filter_empty_conv)

theorem no_match_no_reaction_witness:
  "list_all no_match (iters (ok_env [quiet_pass, quiet_pass, interrupt_pass])) \<and>
   length (filter is_read
     (fst (run (demo0 None) (ok_env [quiet_pass, quiet_pass, interrupt_pass])))) = 3 \<and>
   filter is_reaction
     (fst (run (demo0 None) (ok_env [quiet_pass, quiet_pass, interrupt_pass]))) = []"
proof -
  let ?en = "ok_env [quiet_pass, quiet_pass, interrupt_pass]"
  have h: "list_all no_match (iters ?en)"
    by (simp add: example_defs no_match_def)
  have n: "length (filter is_read (fst (run (demo0 None) ?en))) = 3"
    by (simp add: run_quiet_example)
  from h n no_match_no_reaction [OF h, of "demo0 None"] show ?thesis by blast
qed

text \<open>
  C9. With an empty buffer the finalization writes nothing and raises nothing, whatever
  \<open>soundfile.write\<close> would do. So a session that ends with no frame recorded has no
  recording write in its trace, its outcome does not depend on the write, and it
  returns normally exactly when it was stopped by the operator (the stop notice is in
  the trace).
\<close>

theorem empty_buffer_no_write:
  assumes "snd (snd (run d en)) \<noteq> Running"
    and "recorded_frames (fst (snd (run d en))) = Some []"
  shows "finalize po out (Some []) wr = ([], None) \<and>
         filter is_recording_write (fst (run d en)) = [] \<and>
         (snd (snd (run d en)) = Returned) = (Console Stopping \<in> set (fst (run d en))) \<and>
         (\<forall>wr'. run d (en\<lparr>write_res := wr'\<rparr>) = run d en)"
proof -
  obtain ev l rf x where tb: "try_block d en = (ev, l, rf, x)"
    by (cases "try_block d en") auto
  have evs: "list_all try_event ev"
    using tb by (rule try_block_events)
  have f0: "finalize po out (Some []) wr = ([], None)"
    by (simp add: finalize_def split: option.splits)
  show ?thesis
  proof (cases x)
    case None
    with tb assms(1) show ?thesis by (simp add: run_running)
  next
    case (Some e)
    have rf: "rf = Some []"
      using assms(2) tb Some by (simp add: run_exited)
    have fin: "finalize (l_porcupine l) (output_path d) rf w = ([], None)" for w
      unfolding rf by (simp add: finalize_def split: option.splits)
    have r: "run d en = (ev @ stop_notice e @ release l, d\<lparr>recorded_frames := rf\<rparr>,
                         exit_status e)"
      using tb Some by (simp add: run_exited fin)
    have r': "run d (en\<lparr>write_res := wr'\<rparr>) = run d en" for wr'
    proof -
      have "try_block d (en\<lparr>write_res := wr'\<rparr>) = (ev, l, rf, Some e)"
        using tb Some by (simp add: try_block_write_res)
      then show ?thesis
        unfolding r by (simp add: run_exited fin)
    qed
    have nw: "filter is_recording_write (fst (run d en)) = []"
      unfolding r
      by (simp add: try_events_no_write [OF evs] stop_notice_def release_def)
    have ns: "Console Stopping \<notin> set ev"
      using evs by (rule try_events_no_stop)
    have st: "(snd (snd (run d en)) = Returned) = (Console Stopping \<in> set (fst (run d en)))"
      unfolding r using ns
      by (simp add: stop_notice_def exit_status_def release_def)
    from f0 nw st r' show ?thesis by blast
  qed
qed

theorem empty_buffer_no_write_witness:
  "snd (snd (run (demo0 (Some ''rec.wav''))
               ((ok_env [interrupt_pass])\<lparr>write_res := Raise IOError\<rparr>))) = Returned \<and>
   recorded_frames (fst (snd (run (demo0 (Some ''rec.wav''))
               ((ok_env [interrupt_pass])\<lparr>write_res := Raise IOError\<rparr>)))) = Some [] \<and>
   finalize (Some porc0) (Some ''rec.wav'') (Some []) (Raise IOError) = ([], None) \<and>
   filter is_recording_write
     (fst (run (demo0 (Some ''rec.wav''))
             ((ok_env [interrupt_pass])\<lparr>write_res := Raise IOError\<rparr>))) = [] \<and>
   Console Stopping \<in>
     set (fst (run (demo0 (Some ''rec.wav''))
                 ((ok_env [interrupt_pass])\<lparr>write_res := Raise IOError\<rparr>)))"
proof -
  let ?en = "(ok_env [interrupt_pass])\<lparr>write_res := Raise IOError\<rparr>"
  let ?r = "run (demo0 (Some ''rec.wav'')) ?en"
  have h1: "snd (snd ?r) \<noteq> Running"
    by (simp add: run_empty_recording_example)
  have h2: "recorded_frames (fst (snd ?r)) = Some []"
    by (simp add: run_empty_recording_example) (simp add: demo0_def init_def)
  note t = empty_buffer_no_write
    [OF h1 h2, of "Some porc0" "Some ''rec.wav''" "Raise IOError"]
  have s: "Console Stopping \<in> set (fst ?r)"
    by (simp add: run_empty_recording_example)
  have "snd (snd ?r) = Returned"
    using t s by blast
  with h2 t s show ?thesis by blast
qed

text \<open>
  C10 (as amended). Without an output path the object has no frame buffer, no pass
  creates or fills one, and no exit writes a recording. What the session sends out is
  console lines and, when a keyword is detected, the speech file \<open>output.wav\<close> and its
  playback; a session without a detection sends out console lines only.
\<close>

theorem no_path_no_recording:
  "recorded_frames (init lib model kps sens dev None) = None \<and>
   recorded_frames (fst (snd (run (init lib model kps sens dev None) en))) = None \<and>
   filter is_recording_write (fst (run (init lib model kps sens dev None) en)) = [] \<and>
   list_all (\<lambda>e. is_console e \<or> is_speech_output e)
     (filter is_output (fst (run (init lib model kps sens dev None) en))) \<and>
   (list_all no_match (iters en) \<longrightarrow>
      list_all is_console (filter is_output (fst (run (init lib model kps sens dev None) en))))"
proof -
  let ?d = "init lib model kps sens dev None"
  obtain ev l rf x where tb: "try_block ?d en = (ev, l, rf, x)"
    by (cases "try_block ?d en") auto
  have evs: "list_all try_event ev"
    using tb by (rule try_block_events)
  have rf: "rf = None"
    using tb by (rule try_block_norec_frames)
  have out: "output_path ?d = None"
    by (simp add: init_def)
  have a: "recorded_frames ?d = None"
    by (simp add: init_def)
  have b: "recorded_frames (fst (snd (run ?d en))) = None"
    using tb rf by (cases x) (simp_all add: run_running run_exited)
  have c: "filter is_recording_write (fst (run ?d en)) = []"
    using tb out
    by (cases x)
       (simp_all add: run_running run_exited try_events_no_write [OF evs] finalize_def
          stop_notice_def release_def)
  have d: "list_all (\<lambda>e. is_console e \<or> is_speech_output e) (filter is_output (fst (run ?d en)))"
    using c by (auto simp add: list_all_iff filter_empty_conv output_kinds)
  have e: "list_all is_console (filter is_output (fst (run ?d en)))"
    if "list_all no_match (iters en)"
    using run_no_match [OF that, of ?d] c
    by (auto simp add: list_all_iff filter_empty_conv output_console)
  from a b c d e show ?thesis by blast
qed

theorem no_path_no_recording_witness:
  "list_all no_match (iters (ok_env [quiet_pass, quiet_pass, interrupt_pass])) \<and>
   recorded_frames
     (fst (snd (run (demo0 None) (ok_env [quiet_pass, quiet_pass, interrupt_pass])))) = None \<and>
   filter is_recording_write
     (fst (run (demo0 None) (ok_env [quiet_pass, quiet_pass, interrupt_pass]))) = [] \<and>
   list_all is_console
     (filter is_output (fst (run (demo0 None) (ok_env [quiet_pass, quiet_pass, interrupt_pass]))))"
proof -
  let ?en = "ok_env [quiet_pass, quiet_pass, interrupt_pass]"
  have h: "list_all no_match (iters ?en)"
    by (simp add: example_defs no_match_def)
  note t = no_path_no_recording
    [of "''lib''" "''model''" "[''/m/porcupine_linux.ppn'']" "[1 / 2]" None ?en,
     folded demo0_def]
  from h t show ?thesis by blast
qed

text \<open>The claim as first stated has console lines as the only output. A session
  without an output path that detects its keyword also writes \<open>output.wav\<close> and plays
  it.\<close>

theorem speech_output_without_path:
  "output_path (demo0 None) = None \<and>
   non_console_outputs (fst (run (demo0 None) (ok_env [match_pass, interrupt_pass]))) =
     [Speech_file_write ''output.wav'' [82], Play ''output.wav'']"
  by (simp add: run_detection_example non_console_outputs_def) (simp add: demo0_def init_def)

text \<open>
  C2. Let the first \<open>M - 1\<close> passes run to their end and let the read of pass \<open>M\<close> raise a
  \<open>StreamError\<close>. Then the session reads nothing more: after the failing read come the
  release of the detector, the closing of the stream and the termination of PyAudio,
  and, when the session records and \<open>M > 1\<close>, the writing of a recording that holds
  exactly the frames \<open>1\<close> to \<open>M - 1\<close>. The session ends with an exception, which is the
  \<open>StreamError\<close> when the writing of the recording does not fail.
\<close>

theorem stream_error_cleanup:
  assumes "create_res en = Ok p" "pa_res en = Ok ()" "open_res en = Ok ()"
    and "iters en = pre @ it # post"
    and "list_all (good_pass p (keywords_of kps)) pre"
    and "read_res it = Raise StreamError"
  shows "fst (run (init lib model kps sens dev out) en) =
           trace_through lib model kps sens dev p pre @
           [Stream_read (frame_length p) (Raise StreamError),
            Porcupine_delete, Stream_close, PyAudio_terminate] @
           (case out of
              None \<Rightarrow> []
            | Some path \<Rightarrow>
                if pre = [] then []
                else [Soundfile_write path (concat (map frame_of pre)) (sample_rate p)]) \<and>
         frames_read (trace_through lib model kps sens dev p pre) = map frame_of pre \<and>
         (\<exists>e. snd (snd (run (init lib model kps sens dev out) en)) = Raised e) \<and>
         (write_res en = Ok () \<longrightarrow>
            snd (snd (run (init lib model kps sens dev out) en)) = Raised StreamError)"
proof -
  let ?kws = "keywords_of kps"
  have pt: "pass_trace p ?kws it = [Stream_read (frame_length p) (Raise StreamError)]"
    using assms(6) by (simp add: pass_trace_def iteration_def)
  have pe: "pass_exn p ?kws it = Some StreamError"
    using assms(6) by (simp add: pass_exn_def iteration_def)
  have ff: "full_frame p it"
    using assms(6) by (simp add: full_frame_def)
  have fr: "frames_read (trace_through lib model kps sens dev p pre) = map frame_of pre"
    using assms(5) by (rule frames_read_trace_through)
  show ?thesis
  proof (cases out)
    case None
    have "run (init lib model kps sens dev None) en =
            (session_body lib model kps sens dev p @
             concat (map (pass_trace p ?kws) pre) @ pass_trace p ?kws it @
             stop_notice StreamError @ [Porcupine_delete, Stream_close, PyAudio_terminate],
             init lib model kps sens dev None, exit_status StreamError)"
      using assms(1-5) pe by (rule run_exit_norec)
    with None fr show ?thesis
      by (simp add: pt trace_through_def stop_notice_def exit_status_def)
  next
    case (Some path)
    let ?body = "session_body lib model kps sens dev p @
                 concat (map (pass_trace p ?kws) pre) @ pass_trace p ?kws it"
    have fb: "frames_read ?body = map frame_of pre"
      using fr by (simp add: pt trace_through_def frames_read_append)
    note r = run_exit_rec [OF assms(1-5) ff pe refl, of lib model sens dev path]
    have t: "fst (run (init lib model kps sens dev (Some path)) en) =
               trace_through lib model kps sens dev p pre @
               [Stream_read (frame_length p) (Raise StreamError),
                Porcupine_delete, Stream_close, PyAudio_terminate] @
               (if pre = [] then []
                else [Soundfile_write path (concat (map frame_of pre)) (sample_rate p)])"
      unfolding r(1) fb by (simp add: pt trace_through_def stop_notice_def)
    have s: "snd (snd (run (init lib model kps sens dev (Some path)) en)) =
               (if pre = [] then Raised StreamError
                else (case write_res en of Raise e' \<Rightarrow> Raised e' | Ok u \<Rightarrow> Raised StreamError))"
      unfolding r(2) fb by (simp add: exit_status_def split: outcome.splits)
    from Some t s fr show ?thesis
      by (auto split: outcome.splits)
  qed
qed

theorem stream_error_cleanup_witness:
  "fst (run (demo0 (Some ''rec.wav'')) (ok_env [quiet_pass, match_pass, stream_error_pass])) =
     trace_through ''lib'' ''model'' [''/m/porcupine_linux.ppn''] [1 / 2] None porc0
       [quiet_pass, match_pass] @
     [Stream_read 2 (Raise StreamError), Porcupine_delete, Stream_close, PyAudio_terminate,
      Soundfile_write ''rec.wav'' [1, - 1, 2, 3] 16000] \<and>
   write_res (ok_env [quiet_pass, match_pass, stream_error_pass]) = Ok () \<and>
   snd (snd (run (demo0 (Some ''rec.wav'')) (ok_env [quiet_pass, match_pass, stream_error_pass]))) =
     Raised StreamError"
proof -
  let ?en = "ok_env [quiet_pass, match_pass, stream_error_pass]"
  have h: "create_res ?en = Ok porc0" "pa_res ?en = Ok ()" "open_res ?en = Ok ()"
    "iters ?en = [quiet_pass, match_pass] @ stream_error_pass # []"
    by (simp_all add: ok_env_def)
  have g: "list_all (good_pass porc0 (keywords_of [''/m/porcupine_linux.ppn'']))
             [quiet_pass, match_pass]"
    by (simp add: good_pass_iff label_example example_defs)
  have r: "read_res stream_error_pass = Raise StreamError"
    by (simp add: example_defs)
  have w: "write_res ?en = Ok ()"
    by (simp add: ok_env_def)
  note t = stream_error_cleanup [OF h g r, of "''lib''" "''model''" "[1 / 2]" None
      "Some ''rec.wav''", folded demo0_def]
  from t w show ?thesis
    by (simp add: frame_of_def porc0_def) (simp add: example_defs)
qed

text \<open>
  C7. Let the first passes run to their end and let a call of the next pass raise an
  exception \<open>e\<close>. Whatever \<open>e\<close> is, the session then releases the detector, closes the
  stream, terminates PyAudio and, when it records and has read a frame, writes the
  recording of all the frames read: one cleanup for every exit. The operator's
  interrupt differs from a fatal error in two things only: the stop notice is printed,
  once and before the cleanup, and the session returns normally instead of raising
  (when the writing of the recording does not fail).
\<close>

theorem interrupt_stops_gracefully:
  assumes "create_res en = Ok p" "pa_res en = Ok ()" "open_res en = Ok ()"
    and "iters en = pre @ it # post"
    and "list_all (good_pass p (keywords_of kps)) pre"
    and "full_frame p it"
    and "pass_exn p (keywords_of kps) it = Some e"
  shows "fst (run (init lib model kps sens dev out) en) =
           trace_through lib model kps sens dev p (pre @ [it]) @
           (if e = KeyboardInterrupt then [Console Stopping] else []) @
           [Porcupine_delete, Stream_close, PyAudio_terminate] @
           (case out of
              None \<Rightarrow> []
            | Some path \<Rightarrow>
                if frames_read (trace_through lib model kps sens dev p (pre @ [it])) = [] then []
                else [Soundfile_write path
                        (concat (frames_read (trace_through lib model kps sens dev p (pre @ [it]))))
                        (sample_rate p)]) \<and>
         Console Stopping \<notin> set (trace_through lib model kps sens dev p (pre @ [it])) \<and>
         (write_res en = Ok () \<longrightarrow>
            snd (snd (run (init lib model kps sens dev out) en)) =
              (if e = KeyboardInterrupt then Returned else Raised e))"
proof -
  let ?kws = "keywords_of kps"
  let ?body = "session_body lib model kps sens dev p @
               concat (map (pass_trace p ?kws) pre) @ pass_trace p ?kws it"
  have tt: "trace_through lib model kps sens dev p (pre @ [it]) = ?body"
    by (simp add: trace_through_def)
  have ns: "Console Stopping \<notin> set (trace_through lib model kps sens dev p (pre @ [it]))"
    by (rule try_events_no_stop [OF trace_through_events])
  show ?thesis
  proof (cases out)
    case None
    have "run (init lib model kps sens dev None) en =
            (?body @ stop_notice e @ [Porcupine_delete, Stream_close, PyAudio_terminate],
             init lib model kps sens dev None, exit_status e)"
      using run_exit_norec [OF assms(1-5) assms(7), of lib model sens dev] by simp
    with None ns show ?thesis
      by (simp add: tt stop_notice_def exit_status_def)
  next
    case (Some path)
    note r = run_exit_rec [OF assms(1-7) refl, of lib model sens dev path]
    from Some ns r show ?thesis
      by (simp add: tt stop_notice_def exit_status_def)
  qed
qed

theorem interrupt_stops_gracefully_witness:
  "fst (run (demo0 (Some ''rec.wav'')) (ok_env [quiet_pass, match_pass, interrupt_pass])) =
     trace_through ''lib'' ''model'' [''/m/porcupine_linux.ppn''] [1 / 2] None porc0
       [quiet_pass, match_pass, interrupt_pass] @
     [Console Stopping, Porcupine_delete, Stream_close, PyAudio_terminate,
      Soundfile_write ''rec.wav'' [1, - 1, 2, 3] 16000] \<and>
   write_res (ok_env [quiet_pass, match_pass, interrupt_pass]) = Ok () \<and>
   snd (snd (run (demo0 (Some ''rec.wav'')) (ok_env [quiet_pass, match_pass, interrupt_pass]))) =
     Returned"
proof -
  let ?en = "ok_env [quiet_pass, match_pass, interrupt_pass]"
  have h: "create_res ?en = Ok porc0" "pa_res ?en = Ok ()" "open_res ?en = Ok ()"
    "iters ?en = [quiet_pass, match_pass] @ interrupt_pass # []"
    by (simp_all add: ok_env_def)
  have g: "list_all (good_pass porc0 (keywords_of [''/m/porcupine_linux.ppn'']))
             [quiet_pass, match_pass]"
    by (simp add: good_pass_iff label_example example_defs)
  have f: "full_frame porc0 interrupt_pass"
    by (simp add: full_frame_def example_defs)
  have i: "pass_exn porc0 (keywords_of [''/m/porcupine_linux.ppn'']) interrupt_pass =
             Some KeyboardInterrupt"
    by (rule interrupted_read) (simp add: example_defs)
  have w: "write_res ?en = Ok ()"
    by (simp add: ok_env_def)
  have fr: "frames_read (trace_through ''lib'' ''model'' [''/m/porcupine_linux.ppn''] [1 / 2]
              None porc0 [quiet_pass, match_pass, interrupt_pass]) = [[1, - 1], [2, 3]]"
    by (simp add: trace_through_def frames_read_append frames_read_session_body pass_trace_def
        label_example)
       (simp add: example_defs model_defs)
  note t = interrupt_stops_gracefully [OF h g f i, of "''lib''" "''model''" "[1 / 2]" None
      "Some ''rec.wav''", folded demo0_def]
  from t w show ?thesis
    by (simp add: fr) (simp add: porc0_def)
qed

text \<open>
  C8 (as amended). The detection branch is not guarded: let the first passes run to
  their end and let the reaction of the next pass, whose frame was read and matched,
  raise an exception other than the interrupt. Then that pass is the last one: the
  trace goes from the reaction straight to the \<open>finally\<close> block, it holds one read per
  pass up to this one and none after it, whatever frames the device still has, and
  the session ends with an exception, the reaction's own when the writing of the
  recording does not fail.
\<close>

theorem reaction_failure_ends_session:
  assumes "create_res en = Ok p" "pa_res en = Ok ()" "open_res en = Ok ()"
    and "iters en = pre @ it # post"
    and "list_all (good_pass p (keywords_of kps)) pre"
    and "read_res it = Ok b" "length b = frame_length p"
    and "process_res it = Ok r" "0 \<le> r"
    and "snd (on_detect (keywords_of kps) r it) = Some e" "e \<noteq> KeyboardInterrupt"
  shows "fst (run (init lib model kps sens dev out) en) =
           trace_through lib model kps sens dev p pre @
           [Stream_read (frame_length p) (Ok b), Porcupine_process (map sint b)] @
           fst (on_detect (keywords_of kps) r it) @
           [Porcupine_delete, Stream_close, PyAudio_terminate] @
           (case out of
              None \<Rightarrow> []
            | Some path \<Rightarrow>
                [Soundfile_write path (concat (map frame_of pre @ [b])) (sample_rate p)]) \<and>
         length (filter is_read (fst (run (init lib model kps sens dev out) en))) =
           length pre + 1 \<and>
         (\<exists>e'. snd (snd (run (init lib model kps sens dev out) en)) = Raised e') \<and>
         (write_res en = Ok () \<longrightarrow>
            snd (snd (run (init lib model kps sens dev out) en)) = Raised e)"
proof -
  let ?kws = "keywords_of kps"
  obtain ev where od: "on_detect ?kws r it = (ev, Some e)"
    using assms(10) by (cases "on_detect ?kws r it") auto
  have pt: "pass_trace p ?kws it =
              [Stream_read (frame_length p) (Ok b), Porcupine_process (map sint b)] @ ev"
    using assms(6-9) od
    by (simp add: pass_trace_def iteration_def unpack_from_def record_frame_def)
  have pe: "pass_exn p ?kws it = Some e"
    using assms(6-9) od
    by (simp add: pass_exn_def iteration_def unpack_from_def record_frame_def)
  have ff: "full_frame p it"
    using assms(6,7) by (simp add: full_frame_def)
  have fe: "frames_read ev = []"
    using od by (rule frames_read_on_detect)
  have re: "filter is_read ev = []"
    using on_detect_no_read [OF od] by (simp add: list_all_iff filter_empty_conv)
  have fr: "frames_read (trace_through lib model kps sens dev p pre) = map frame_of pre"
    using assms(5) by (rule frames_read_trace_through)
  have rd: "length (filter is_read (trace_through lib model kps sens dev p pre)) = length pre"
    by (rule reads_trace_through)
  let ?body = "session_body lib model kps sens dev p @
               concat (map (pass_trace p ?kws) pre) @ pass_trace p ?kws it"
  have body: "?body = trace_through lib model kps sens dev p pre @
                [Stream_read (frame_length p) (Ok b), Porcupine_process (map sint b)] @ ev"
    by (simp add: pt trace_through_def)
  have fb: "frames_read ?body = map frame_of pre @ [b]"
    unfolding body using fr fe by (simp add: frames_read_append)
  have t: "fst (run (init lib model kps sens dev out) en) =
             trace_through lib model kps sens dev p pre @
             [Stream_read (frame_length p) (Ok b), Porcupine_process (map sint b)] @ ev @
             [Porcupine_delete, Stream_close, PyAudio_terminate] @
             (case out of
                None \<Rightarrow> []
              | Some path \<Rightarrow>
                  [Soundfile_write path (concat (map frame_of pre @ [b])) (sample_rate p)])"
  proof (cases out)
    case None
    have "run (init lib model kps sens dev None) en =
            (?body @ stop_notice e @ [Porcupine_delete, Stream_close, PyAudio_terminate],
             init lib model kps sens dev None, exit_status e)"
      using run_exit_norec [OF assms(1-5) pe, of lib model sens dev] by simp
    with None assms(11) show ?thesis
      by (simp add: body stop_notice_def)
  next
    case (Some path)
    have "fst (run (init lib model kps sens dev (Some path)) en) =
            ?body @ stop_notice e @ [Porcupine_delete, Stream_close, PyAudio_terminate] @
            [Soundfile_write path (concat (map frame_of pre @ [b])) (sample_rate p)]"
      unfolding run_exit_rec(1) [OF assms(1-5) ff pe refl, of lib model sens dev path] fb
      by simp
    with Some assms(11) show ?thesis
      by (simp add: body stop_notice_def)
  qed
  have s: "snd (snd (run (init lib model kps sens dev out) en)) =
             (case out of
                None \<Rightarrow> Raised e
              | Some path \<Rightarrow> (case write_res en of Raise e' \<Rightarrow> Raised e' | Ok u \<Rightarrow> Raised e))"
  proof (cases out)
    case None
    have "run (init lib model kps sens dev None) en =
            (?body @ stop_notice e @ [Porcupine_delete, Stream_close, PyAudio_terminate],
             init lib model kps sens dev None, exit_status e)"
      using run_exit_norec [OF assms(1-5) pe, of lib model sens dev] by simp
    with None assms(11) show ?thesis
      by (simp add: exit_status_def)
  next
    case (Some path)
    have "snd (snd (run (init lib model kps sens dev (Some path)) en)) =
            (case write_res en of Raise e' \<Rightarrow> Raised e' | Ok u \<Rightarrow> exit_status e)"
      unfolding run_exit_rec(2) [OF assms(1-5) ff pe refl, of lib model sens dev path] fb
      by simp
    with Some assms(11) show ?thesis
      by (simp add: exit_status_def split: outcome.splits)
  qed
  have n: "length (filter is_read (fst (run (init lib model kps sens dev out) en))) =
             length pre + 1"
    unfolding t using rd re by (simp split: option.splits)
  have s1: "\<exists>e'. snd (snd (run (init lib model kps sens dev out) en)) = Raised e'"
    unfolding s by (simp split: option.splits outcome.splits)
  have s2: "write_res en = Ok () \<longrightarrow>
              snd (snd (run (init lib model kps sens dev out) en)) = Raised e"
    unfolding s by (simp split: option.splits)
  from t n s1 s2 od show ?thesis by simp
qed

theorem reaction_failure_ends_session_witness:
  "snd (on_detect (keywords_of [''/m/porcupine_linux.ppn'']) 0 failing_reaction_pass) =
     Some ReactionError \<and>
   length (iters (ok_env [quiet_pass, failing_reaction_pass, match_pass])) = 3 \<and>
   length (filter is_read
     (fst (run (demo0 None) (ok_env [quiet_pass, failing_reaction_pass, match_pass])))) = 2 \<and>
   write_res (ok_env [quiet_pass, failing_reaction_pass, match_pass]) = Ok () \<and>
   snd (snd (run (demo0 None) (ok_env [quiet_pass, failing_reaction_pass, match_pass]))) =
     Raised ReactionError"
proof -
  let ?en = "ok_env [quiet_pass, failing_reaction_pass, match_pass]"
  have h: "create_res ?en = Ok porc0" "pa_res ?en = Ok ()" "open_res ?en = Ok ()"
    "iters ?en = [quiet_pass] @ failing_reaction_pass # [match_pass]"
    by (simp_all add: ok_env_def)
  have g: "list_all (good_pass porc0 (keywords_of [''/m/porcupine_linux.ppn''])) [quiet_pass]"
    by (simp add: good_pass_iff label_example example_defs)
  have r: "read_res failing_reaction_pass = Ok [2, 3]"
    "length [2 :: sample, 3] = frame_length porc0"
    "process_res failing_reaction_pass = Ok 0" "(0 :: int) \<le> 0"
    by (simp_all add: example_defs)
  have o: "snd (on_detect (keywords_of [''/m/porcupine_linux.ppn'']) 0 failing_reaction_pass) =
             Some ReactionError"
    by (simp add: label_example on_detect_def example_defs)
  have ne: "ReactionError \<noteq> KeyboardInterrupt"
    by simp
  have w: "write_res ?en = Ok ()" "length (iters ?en) = 3"
    by (simp_all add: ok_env_def)
  note t = reaction_failure_ends_session [OF h g r o ne, of "''lib''" "''model''" "[1 / 2]" None
      None, folded demo0_def]
  have n: "length (filter is_read (fst (run (demo0 None) ?en))) = 2"
    using t [THEN conjunct2, THEN conjunct1] by simp
  have s: "snd (snd (run (demo0 None) ?en)) = Raised ReactionError"
    using t [THEN conjunct2, THEN conjunct2, THEN conjunct2] w(1) by simp
  from o w n s show ?thesis by (intro conjI)
qed

text \<open>The claim as first stated lets the loop go on after a failure of the reaction.
  Here the weather request of the first pass fails: the session has ended with that
  exception after one read, although the device had two more frames, one of them with
  the keyword.\<close>

theorem reaction_failure_stops_detection:
  "length (iters (ok_env [failing_reaction_pass, match_pass, quiet_pass])) = 3 \<and>
   length (filter is_read
     (fst (run (demo0 None) (ok_env [failing_reaction_pass, match_pass, quiet_pass])))) = 1 \<and>
   snd (snd (run (demo0 None) (ok_env [failing_reaction_pass, match_pass, quiet_pass]))) =
     Raised ReactionError"
  by (simp add: run_failing_reaction_example) (simp add: ok_env_def)

text \<open>
  C4. Let the first \<open>K - 1\<close> passes run to their end and let the detector answer a
  keyword index for the frame of pass \<open>K\<close>. Then the part of the trace from the read of
  frame \<open>K\<close> up to the next read begins with that read, the call of the detector on the
  frame, and the detection line with the time stamp and the label of that keyword, in
  this order with nothing between them; and it holds no other detection line. So the
  reaction runs once, inside the pass, before frame \<open>K + 1\<close> is read.
\<close>

theorem detection_reacts_within_pass:
  assumes "create_res en = Ok p" "pa_res en = Ok ()" "open_res en = Ok ()"
    and "iters en = pre @ it # post"
    and "list_all (good_pass p (keywords_of kps)) pre"
    and "read_res it = Ok b" "length b = frame_length p"
    and "process_res it = Ok r" "0 \<le> r" "nat r < length (keywords_of kps)"
  shows "take 3 (pass_of (length pre) (fst (run (init lib model kps sens dev out) en))) =
           [Stream_read (frame_length p) (Ok b), Porcupine_process (map sint b),
            Console (Detected (now it) (keywords_of kps ! nat r))] \<and>
         filter is_detected
           (pass_of (length pre) (fst (run (init lib model kps sens dev out) en))) =
           [Console (Detected (now it) (keywords_of kps ! nat r))]"
proof -
  let ?kws = "keywords_of kps"
  let ?S = "Stream_read (frame_length p) (Ok b)"
  let ?P = "Porcupine_process (map sint b)"
  let ?D = "Console (Detected (now it) (?kws ! nat r))"
  let ?nr = "\<lambda>x. \<not> is_read x"
  obtain tail where sh: "fst (run (init lib model kps sens dev out) en) =
      session_body lib model kps sens dev p @ loop_trace p ?kws (iters en) @ tail"
    and tl: "list_all (\<lambda>e. \<not> is_read e \<and> \<not> is_detected e) tail"
    using run_trace_shape [OF assms(1-3)] by blast
  obtain R where od: "fst (on_detect ?kws r it) = ?D # R"
    and rr: "list_all (\<lambda>e. \<not> is_read e \<and> \<not> is_detected e) R"
    using on_detect_head [OF assms(10)] by blast
  obtain x where odp: "on_detect ?kws r it = (?D # R, x)"
    using od by (cases "on_detect ?kws r it") auto
  have pt: "pass_trace p ?kws it = ?S # ?P # ?D # R"
    using assms(6-9) odp
    by (simp add: pass_trace_def iteration_def unpack_from_def record_frame_def)
  let ?Y = "if pass_exn p ?kws it = None then loop_trace p ?kws post else []"
  have lt: "loop_trace p ?kws (iters en) =
              concat (map (pass_trace p ?kws) pre) @ pass_trace p ?kws it @ ?Y"
    unfolding assms(4) by (simp add: loop_trace_prefix [OF assms(5)] loop_trace_Cons)
  have tr: "fst (run (init lib model kps sens dev out) en) =
              trace_through lib model kps sens dev p pre @ (?S # ?P # ?D # R @ ?Y @ tail)"
    unfolding sh lt pt by (simp add: trace_through_def)
  have fr: "from_read (length pre) (fst (run (init lib model kps sens dev out) en)) =
              ?S # ?P # ?D # R @ ?Y @ tail"
  proof -
    have "from_read (length pre + 0) (trace_through lib model kps sens dev p pre @ ys) =
            from_read 0 ys" for ys
      by (rule from_read_skip) (rule reads_trace_through)
    then show ?thesis
      unfolding tr by simp
  qed
  have rn: "\<forall>x\<in>set R. \<not> is_read x"
    using rr by (simp add: list_all_iff)
  have tw: "takeWhile ?nr (?P # ?D # R @ ?Y @ tail) = ?P # ?D # R @ takeWhile ?nr (?Y @ tail)"
    using rn by (simp add: takeWhile_append2)
  have zs: "set (takeWhile ?nr (?Y @ tail)) \<subseteq> set tail"
  proof (cases "pass_exn p ?kws it = None \<and> post \<noteq> []")
    case True
    then show ?thesis by (simp add: loop_trace_takeWhile)
  next
    case False
    then have "takeWhile ?nr (?Y @ tail) = takeWhile ?nr tail"
      by (auto simp add: loop_trace_Nil)
    then show ?thesis by (auto dest: set_takeWhileD)
  qed
  have zd: "filter is_detected (takeWhile ?nr (?Y @ tail)) = []"
    using zs tl by (auto simp add: filter_empty_conv list_all_iff)
  have rd: "filter is_detected R = []"
    using rr by (simp add: filter_empty_conv list_all_iff)
  have po: "pass_of (length pre) (fst (run (init lib model kps sens dev out) en)) =
              ?S # ?P # ?D # R @ takeWhile ?nr (?Y @ tail)"
    unfolding pass_of_def fr using tw by simp
  show ?thesis
    unfolding po using zd rd by simp
qed

theorem detection_reacts_within_pass_witness:
  "pass_of 1 (fst (run (demo0 None) (ok_env [quiet_pass, match_pass, interrupt_pass]))) =
     [Stream_read 2 (Ok [2, 3]), Porcupine_process [2, 3],
      Console (Detected ''12:00'' ''porcupine''), Get_weather, Console (Spoken ''Sunny''),
      Synthesize_speech ''Sunny'', Speech_file_write ''output.wav'' [82],
      Console Audio_written, Play ''output.wav''] \<and>
   filter is_detected
     (pass_of 1 (fst (run (demo0 None) (ok_env [quiet_pass, match_pass, interrupt_pass])))) =
     [Console (Detected (now match_pass) (keywords_of [''/m/porcupine_linux.ppn''] ! nat 0))]"
proof -
  let ?en = "ok_env [quiet_pass, match_pass, interrupt_pass]"
  have h: "create_res ?en = Ok porc0" "pa_res ?en = Ok ()" "open_res ?en = Ok ()"
    "iters ?en = [quiet_pass] @ match_pass # [interrupt_pass]"
    by (simp_all add: ok_env_def)
  have g: "list_all (good_pass porc0 (keywords_of [''/m/porcupine_linux.ppn''])) [quiet_pass]"
    by (simp add: good_pass_iff label_example example_defs)
  have r: "read_res match_pass = Ok [2, 3]"
    "length [2 :: sample, 3] = frame_length porc0"
    "process_res match_pass = Ok 0" "(0 :: int) \<le> 0"
    "nat 0 < length (keywords_of [''/m/porcupine_linux.ppn''])"
    by (simp_all add: example_defs label_example)
  note t = detection_reacts_within_pass [OF h g r, of "''lib''" "''model''" "[1 / 2]" None None,
      folded demo0_def]
  have e: "pass_of 1 (fst (run (demo0 None) ?en)) =
     [Stream_read 2 (Ok [2, 3]), Porcupine_process [2, 3],
      Console (Detected ''12:00'' ''porcupine''), Get_weather, Console (Spoken ''Sunny''),
      Synthesize_speech ''Sunny'', Speech_file_write ''output.wav'' [82],
      Console Audio_written, Play ''output.wav'']"
    by (simp add: pass_of_def example_defs model_defs)
  from t e show ?thesis by simp
qed

end
